theory Spec2Isabelle
  imports Complex_Main
begin

section \<open>Data model (src/models.py)\<close>

text \<open>
  Python \<open>float\<close> values (spreads, thresholds, buffers) are idealised as \<open>real\<close>: rounding,
  infinities and NaN are outside the model. Python \<open>int\<close> values (millisecond timestamps,
  second intervals) are \<open>int\<close>. The four module-level status constants are the only values
  the code ever writes into a status field, so they form a datatype.
\<close>

datatype status =
    STATUS_OPEN_PENDING_CONFIRM
  | STATUS_OPEN_CONFIRMED
  | STATUS_CLOSE_SIGNALLED
  | STATUS_CLOSED

record MarketSnapshot =
  ts_ms :: int
  paxg_bid :: real
  paxg_ask :: real
  xaut_bid :: real
  xaut_ask :: real
  spread_open :: real
  spread_close :: real
  paxg_funding :: "real option"
  xaut_funding :: "real option"
  funding_diff_raw :: "real option"
  funding_diff_annual :: "real option"
  annual_factor :: real
  quote_size_paxg :: string
  quote_size_xaut :: string
  latency_ms :: int

type_synonym metadata = "(string \<times> real option) list"

record PositionRecord =
  position_id :: string
  status :: status
  created_at_ts :: int
  updated_at_ts :: int
  signal_spread :: real
  signal_ts :: int
  last_open_alert_ts :: int
  entry_spread_actual :: "real option"
  opened_at_confirm_ts :: "int option"
  close_trigger :: "real option"
  close_signalled_ts :: "int option"
  last_close_alert_ts :: "int option"
  close_spread_actual :: "real option"
  closed_at_confirm_ts :: "int option"
  chat_id :: "string option"
  metadata :: metadata

text \<open>
  Several classes of the source share attribute names (\<open>annual_factor\<close>, \<open>positions_table\<close>,
  \<open>alerts_table\<close>); where a later record has taken the short name, the earlier field is
  written with its record's name in front.
\<close>

record RuntimeConfig =
  api_url :: string
  quote_size :: string
  pair :: string
  poll_interval_sec :: real
  threshold_open :: real
  close_buffer :: real
  repeat_alert_sec :: int
  annual_factor :: real
  config_refresh_sec :: int
  data_ttl_days :: int
  aws_region :: string
  ticks_table :: string
  positions_table :: string
  config_table :: string
  alerts_table :: "string option"
  tg_bot_token :: "string option"
  tg_allowed_chat_ids :: "string set"

section \<open>Signal rules (src/signals.py)\<close>

definition is_open_signal :: "MarketSnapshot \<Rightarrow> real \<Rightarrow> bool" where
  "is_open_signal snapshot threshold_open' = (spread_open snapshot \<ge> threshold_open')"

text \<open>
  The function \<open>close_trigger\<close> of signals.py carries its module name here, because the
  position record has a field of the same name.
\<close>

definition signals_close_trigger :: "real \<Rightarrow> real \<Rightarrow> real" where
  "signals_close_trigger entry_spread_actual' close_buffer' = - entry_spread_actual' + close_buffer'"

definition is_close_signal :: "MarketSnapshot \<Rightarrow> PositionRecord \<Rightarrow> bool" where
  "is_close_signal snapshot position =
     (case close_trigger position of
        None \<Rightarrow> False
      | Some trigger \<Rightarrow> spread_close snapshot \<ge> trigger)"

definition should_repeat :: "int option \<Rightarrow> int \<Rightarrow> int \<Rightarrow> bool" where
  "should_repeat last_alert_ts now_ms repeat_alert_sec' =
     (case last_alert_ts of
        None \<Rightarrow> True
      | Some last_ts \<Rightarrow> now_ms - last_ts \<ge> repeat_alert_sec' * 1000)"

section \<open>The positions table (DynamoDB, reached through boto3)\<close>

text \<open>
  A table item is a set of attributes of which only the key is always present, so every
  other attribute is optional. Numbers are written as \<open>Decimal(str(x))\<close> and read back
  through \<open>from_decimal\<close>; that round trip is taken to be the identity, as is the JSON
  encoding of the metadata. The table is the list of its items in scan order.
\<close>

record item =
  attr_position_id :: string
  attr_status :: "status option"
  attr_created_at_ts :: "int option"
  attr_updated_at_ts :: "int option"
  attr_signal_spread :: "real option"
  attr_signal_ts :: "int option"
  attr_last_open_alert_ts :: "int option"
  attr_metadata_json :: "metadata option"
  attr_entry_spread_actual :: "real option"
  attr_opened_at_confirm_ts :: "int option"
  attr_close_trigger :: "real option"
  attr_close_signalled_ts :: "int option"
  attr_last_close_alert_ts :: "int option"
  attr_close_spread_actual :: "real option"
  attr_closed_at_confirm_ts :: "int option"
  attr_chat_id :: "string option"

definition key_only :: "string \<Rightarrow> item" where
  "key_only k =
     \<lparr>attr_position_id = k, attr_status = None, attr_created_at_ts = None,
      attr_updated_at_ts = None, attr_signal_spread = None, attr_signal_ts = None,
      attr_last_open_alert_ts = None, attr_metadata_json = None,
      attr_entry_spread_actual = None, attr_opened_at_confirm_ts = None,
      attr_close_trigger = None, attr_close_signalled_ts = None,
      attr_last_close_alert_ts = None, attr_close_spread_actual = None,
      attr_closed_at_confirm_ts = None, attr_chat_id = None\<rparr>"

fun get_item :: "item list \<Rightarrow> string \<Rightarrow> item option" where
  "get_item [] k = None"
| "get_item (x # xs) k = (if attr_position_id x = k then Some x else get_item xs k)"

text \<open>\<open>put_item\<close> replaces the item that has the same key, or adds a new one.\<close>

fun put_item :: "item list \<Rightarrow> item \<Rightarrow> item list" where
  "put_item [] it = [it]"
| "put_item (x # xs) it =
     (if attr_position_id x = attr_position_id it then it # xs else x # put_item xs it)"

text \<open>
  \<open>update_item\<close> with \<open>ReturnValues = ALL_NEW\<close>: the condition is evaluated on the stored
  item, or on an item with no attribute but the key when none is stored (every comparison
  with a missing attribute is then false); when it holds, the SET clauses are applied and
  the result is stored (an update of a missing key creates the item). \<open>None\<close> stands for
  \<open>ConditionalCheckFailedException\<close>; a call without ConditionExpression passes
  \<open>\<lambda>_. True\<close>.
\<close>

definition update_item ::
  "item list \<Rightarrow> string \<Rightarrow> (item \<Rightarrow> item) \<Rightarrow> (item \<Rightarrow> bool) \<Rightarrow> (item \<times> item list) option" where
  "update_item tbl k set_clauses condition =
     (let old = (case get_item tbl k of None \<Rightarrow> key_only k | Some it \<Rightarrow> it)
      in if condition old
         then (let new = set_clauses old in Some (new, put_item tbl new))
         else None)"

text \<open>\<open>scan\<close>: all pages of a scan with a filter, concatenated.\<close>

definition scan :: "item list \<Rightarrow> (item \<Rightarrow> bool) \<Rightarrow> item list" where
  "scan tbl flt = filter flt tbl"

section \<open>The storage gateway (src/storage.py)\<close>

datatype error = KeyError

record alert =
  alert_ts_ms :: int
  alert_type :: string
  alert_position_id :: string
  alert_message :: string
  alert_extra :: "string \<times> real"

datatype message =
    OpenSignalMessage PositionRecord MarketSnapshot real bool
  | CloseSignalMessage PositionRecord MarketSnapshot bool

text \<open>
  The state that the storage gateway and the notifier change: the positions table, the
  alerts table (absent when none is configured) and the messages handed to \<open>notify\<close>, the
  oldest first. A message is kept as the arguments of the function that renders it.
\<close>

record state =
  positions_table :: "item list"
  alerts_table :: "alert list option"
  sent :: "message list"

definition position_from_item :: "item \<Rightarrow> error + PositionRecord" where
  "position_from_item data =
     (case attr_status data of None \<Rightarrow> Inl KeyError | Some st \<Rightarrow>
      case attr_created_at_ts data of None \<Rightarrow> Inl KeyError | Some created \<Rightarrow>
      case attr_updated_at_ts data of None \<Rightarrow> Inl KeyError | Some updated \<Rightarrow>
      case attr_signal_spread data of None \<Rightarrow> Inl KeyError | Some spread \<Rightarrow>
      case attr_signal_ts data of None \<Rightarrow> Inl KeyError | Some sig_ts \<Rightarrow>
        Inr \<lparr>position_id = attr_position_id data,
             status = st,
             created_at_ts = created,
             updated_at_ts = updated,
             signal_spread = spread,
             signal_ts = sig_ts,
             last_open_alert_ts =
               (case attr_last_open_alert_ts data of None \<Rightarrow> updated | Some t \<Rightarrow> t),
             entry_spread_actual = attr_entry_spread_actual data,
             opened_at_confirm_ts = attr_opened_at_confirm_ts data,
             close_trigger = attr_close_trigger data,
             close_signalled_ts = attr_close_signalled_ts data,
             last_close_alert_ts = attr_last_close_alert_ts data,
             close_spread_actual = attr_close_spread_actual data,
             closed_at_confirm_ts = attr_closed_at_confirm_ts data,
             chat_id = attr_chat_id data,
             metadata = (case attr_metadata_json data of None \<Rightarrow> [] | Some m \<Rightarrow> m)\<rparr>)"

text \<open>The list comprehension over the scanned items stops at the first item that raises.\<close>

fun positions_from_items :: "item list \<Rightarrow> error + PositionRecord list" where
  "positions_from_items [] = Inr []"
| "positions_from_items (x # xs) =
     (case position_from_item x of
        Inl e \<Rightarrow> Inl e
      | Inr p \<Rightarrow> (case positions_from_items xs of Inl e \<Rightarrow> Inl e | Inr ps \<Rightarrow> Inr (p # ps)))"

text \<open>
  \<open>uuid.uuid4()\<close> is an input of the model: \<open>new_id\<close> is the identifier it returns.
\<close>

definition DynamoStorage_create_pending_position ::
  "state \<Rightarrow> string \<Rightarrow> real \<Rightarrow> int \<Rightarrow> metadata \<Rightarrow> int \<Rightarrow> (error + PositionRecord) \<times> state" where
  "DynamoStorage_create_pending_position st new_id signal_spread' signal_ts' metadata' now_ms =
     (let it = \<lparr>attr_position_id = new_id,
                attr_status = Some STATUS_OPEN_PENDING_CONFIRM,
                attr_created_at_ts = Some now_ms,
                attr_updated_at_ts = Some now_ms,
                attr_signal_spread = Some signal_spread',
                attr_signal_ts = Some signal_ts',
                attr_last_open_alert_ts = Some now_ms,
                attr_metadata_json = Some metadata',
                attr_entry_spread_actual = None, attr_opened_at_confirm_ts = None,
                attr_close_trigger = None, attr_close_signalled_ts = None,
                attr_last_close_alert_ts = None, attr_close_spread_actual = None,
                attr_closed_at_confirm_ts = None, attr_chat_id = None\<rparr>
      in (position_from_item it, st\<lparr>positions_table := put_item (positions_table st) it\<rparr>))"

definition DynamoStorage_get_position :: "state \<Rightarrow> string \<Rightarrow> error + PositionRecord option" where
  "DynamoStorage_get_position st pid =
     (case get_item (positions_table st) pid of
        None \<Rightarrow> Inr None
      | Some it \<Rightarrow> map_sum id Some (position_from_item it))"

text \<open>An empty list of statuses (or \<open>None\<close>) scans without a filter.\<close>

definition DynamoStorage_list_positions :: "state \<Rightarrow> status list \<Rightarrow> error + PositionRecord list" where
  "DynamoStorage_list_positions st statuses =
     (let items =
        (if statuses = [] then scan (positions_table st) (\<lambda>it. True)
         else scan (positions_table st)
                (\<lambda>it. case attr_status it of None \<Rightarrow> False | Some s \<Rightarrow> s \<in> set statuses))
      in map_sum id (sort_key signal_ts) (positions_from_items items))"

definition DynamoStorage_confirm_open ::
  "state \<Rightarrow> string \<Rightarrow> real \<Rightarrow> real \<Rightarrow> int \<Rightarrow> string \<Rightarrow> (error + PositionRecord option) \<times> state" where
  "DynamoStorage_confirm_open st pid entry_spread_actual' close_buffer' now_ms chat_id' =
     (let close_trigger' = - entry_spread_actual' + close_buffer'
      in case update_item (positions_table st) pid
                (\<lambda>it. it\<lparr>attr_status := Some STATUS_OPEN_CONFIRMED,
                          attr_entry_spread_actual := Some entry_spread_actual',
                          attr_close_trigger := Some close_trigger',
                          attr_opened_at_confirm_ts := Some now_ms,
                          attr_updated_at_ts := Some now_ms,
                          attr_chat_id := Some chat_id'\<rparr>)
                (\<lambda>it. attr_status it = Some STATUS_OPEN_PENDING_CONFIRM) of
           None \<Rightarrow> (Inr None, st)
         | Some (attrs, tbl) \<Rightarrow>
             (map_sum id Some (position_from_item attrs), st\<lparr>positions_table := tbl\<rparr>))"

definition DynamoStorage_mark_open_alert_sent :: "state \<Rightarrow> string \<Rightarrow> int \<Rightarrow> state" where
  "DynamoStorage_mark_open_alert_sent st pid now_ms =
     (case update_item (positions_table st) pid
             (\<lambda>it. it\<lparr>attr_last_open_alert_ts := Some now_ms, attr_updated_at_ts := Some now_ms\<rparr>)
             (\<lambda>it. True) of
        None \<Rightarrow> st
      | Some (attrs, tbl) \<Rightarrow> st\<lparr>positions_table := tbl\<rparr>)"

definition DynamoStorage_mark_close_signalled ::
  "state \<Rightarrow> string \<Rightarrow> int \<Rightarrow> (error + PositionRecord option) \<times> state" where
  "DynamoStorage_mark_close_signalled st pid now_ms =
     (case update_item (positions_table st) pid
             (\<lambda>it. it\<lparr>attr_status := Some STATUS_CLOSE_SIGNALLED,
                       attr_close_signalled_ts := Some now_ms,
                       attr_last_close_alert_ts := Some now_ms,
                       attr_updated_at_ts := Some now_ms\<rparr>)
             (\<lambda>it. attr_status it = Some STATUS_OPEN_CONFIRMED) of
        None \<Rightarrow> (Inr None, st)
      | Some (attrs, tbl) \<Rightarrow>
          (map_sum id Some (position_from_item attrs), st\<lparr>positions_table := tbl\<rparr>))"

definition DynamoStorage_mark_close_alert_sent ::
  "state \<Rightarrow> string \<Rightarrow> int \<Rightarrow> (error + PositionRecord option) \<times> state" where
  "DynamoStorage_mark_close_alert_sent st pid now_ms =
     (case update_item (positions_table st) pid
             (\<lambda>it. it\<lparr>attr_last_close_alert_ts := Some now_ms, attr_updated_at_ts := Some now_ms\<rparr>)
             (\<lambda>it. True) of
        None \<Rightarrow> (Inr None, st)
      | Some (attrs, tbl) \<Rightarrow>
          (map_sum id Some (position_from_item attrs), st\<lparr>positions_table := tbl\<rparr>))"

definition DynamoStorage_close_position ::
  "state \<Rightarrow> string \<Rightarrow> real \<Rightarrow> int \<Rightarrow> string \<Rightarrow> (error + PositionRecord option) \<times> state" where
  "DynamoStorage_close_position st pid close_spread_actual' now_ms chat_id' =
     (case update_item (positions_table st) pid
             (\<lambda>it. it\<lparr>attr_status := Some STATUS_CLOSED,
                       attr_close_spread_actual := Some close_spread_actual',
                       attr_closed_at_confirm_ts := Some now_ms,
                       attr_updated_at_ts := Some now_ms,
                       attr_chat_id := Some chat_id'\<rparr>)
             (\<lambda>it. case attr_status it of
                      None \<Rightarrow> False
                    | Some s \<Rightarrow> s \<in> set [STATUS_OPEN_CONFIRMED, STATUS_CLOSE_SIGNALLED]) of
        None \<Rightarrow> (Inr None, st)
      | Some (attrs, tbl) \<Rightarrow>
          (map_sum id Some (position_from_item attrs), st\<lparr>positions_table := tbl\<rparr>))"

text \<open>
  \<open>put_alert\<close> does nothing without an alerts table; otherwise it stores the payload under
  a fresh \<open>alert_id\<close>, which appends it.
\<close>

definition DynamoStorage_put_alert :: "state \<Rightarrow> alert \<Rightarrow> state" where
  "DynamoStorage_put_alert st payload =
     (case alerts_table st of
        None \<Rightarrow> st
      | Some alerts \<Rightarrow> st\<lparr>alerts_table := Some (alerts @ [payload])\<rparr>)"

section \<open>The position manager (src/position_manager.py)\<close>

definition notify :: "state \<Rightarrow> message \<Rightarrow> state" where
  "notify st msg = st\<lparr>sent := sent st @ [msg]\<rparr>"

definition process_open_signals ::
  "state \<Rightarrow> MarketSnapshot \<Rightarrow> RuntimeConfig \<Rightarrow> int \<Rightarrow> string \<Rightarrow> (error + unit) \<times> state" where
  "process_open_signals st snapshot c now_ms new_id =
     (if \<not> is_open_signal snapshot (threshold_open c) then (Inr (), st)
      else
        case DynamoStorage_list_positions st [STATUS_OPEN_PENDING_CONFIRM] of
          Inl e \<Rightarrow> (Inl e, st)
        | Inr pending \<Rightarrow>
            (case (if pending \<noteq> [] then Some (last pending) else None) of
               None \<Rightarrow>
                 (case DynamoStorage_create_pending_position st new_id
                         (spread_open snapshot) (ts_ms snapshot)
                         [(''spread_close'', Some (spread_close snapshot)),
                          (''funding_diff_annual'', funding_diff_annual snapshot)]
                         now_ms of
                    (Inl e, st1) \<Rightarrow> (Inl e, st1)
                  | (Inr position, st1) \<Rightarrow>
                      (let st2 = notify st1
                                   (OpenSignalMessage position snapshot (threshold_open c) False);
                           st3 = DynamoStorage_put_alert st2
                                   \<lparr>alert_ts_ms = now_ms,
                                    alert_type = ''OPEN_SIGNAL'',
                                    alert_position_id = position_id position,
                                    alert_message = ''open signal created'',
                                    alert_extra = (''spread_open'', spread_open snapshot)\<rparr>
                       in (Inr (), st3)))
             | Some latest_pending \<Rightarrow>
                 (if should_repeat (Some (last_open_alert_ts latest_pending)) now_ms
                       (repeat_alert_sec c)
                  then
                    (let st1 = notify st
                                 (OpenSignalMessage latest_pending snapshot (threshold_open c) True);
                         st2 = DynamoStorage_mark_open_alert_sent st1
                                 (position_id latest_pending) now_ms;
                         st3 = DynamoStorage_put_alert st2
                                 \<lparr>alert_ts_ms = now_ms,
                                  alert_type = ''OPEN_SIGNAL_REPEAT'',
                                  alert_position_id = position_id latest_pending,
                                  alert_message = ''open signal reminder'',
                                  alert_extra = (''spread_open'', spread_open snapshot)\<rparr>
                     in (Inr (), st3))
                  else (Inr (), st))))"

text \<open>
  The loop of \<open>process_close_signals\<close> over the positions listed at its start; each
  \<open>continue\<close> is the recursive call on the rest of the list.
\<close>

fun process_close_loop ::
  "MarketSnapshot \<Rightarrow> RuntimeConfig \<Rightarrow> int \<Rightarrow> PositionRecord list \<Rightarrow> state \<Rightarrow> (error + unit) \<times> state" where
  "process_close_loop snapshot c now_ms [] st = (Inr (), st)"
| "process_close_loop snapshot c now_ms (position # rest) st =
     (if close_trigger position = None then process_close_loop snapshot c now_ms rest st
      else if status position = STATUS_OPEN_CONFIRMED \<and> is_close_signal snapshot position then
        (case DynamoStorage_mark_close_signalled st (position_id position) now_ms of
           (Inl e, st1) \<Rightarrow> (Inl e, st1)
         | (Inr None, st1) \<Rightarrow> process_close_loop snapshot c now_ms rest st1
         | (Inr (Some updated), st1) \<Rightarrow>
             (let st2 = notify st1 (CloseSignalMessage updated snapshot False);
                  st3 = DynamoStorage_put_alert st2
                          \<lparr>alert_ts_ms = now_ms,
                           alert_type = ''CLOSE_SIGNAL'',
                           alert_position_id = position_id position,
                           alert_message = ''close signal triggered'',
                           alert_extra = (''spread_close'', spread_close snapshot)\<rparr>
              in process_close_loop snapshot c now_ms rest st3))
      else if status position = STATUS_CLOSE_SIGNALLED
              \<and> should_repeat (last_close_alert_ts position) now_ms (repeat_alert_sec c) then
        (let st1 = notify st (CloseSignalMessage position snapshot True)
         in case DynamoStorage_mark_close_alert_sent st1 (position_id position) now_ms of
              (Inl e, st2) \<Rightarrow> (Inl e, st2)
            | (Inr r, st2) \<Rightarrow>
                (let st3 = DynamoStorage_put_alert st2
                             \<lparr>alert_ts_ms = now_ms,
                              alert_type = ''CLOSE_SIGNAL_REPEAT'',
                              alert_position_id = position_id position,
                              alert_message = ''close signal reminder'',
                              alert_extra = (''spread_close'', spread_close snapshot)\<rparr>
                 in process_close_loop snapshot c now_ms rest st3))
      else process_close_loop snapshot c now_ms rest st)"

definition process_close_signals ::
  "state \<Rightarrow> MarketSnapshot \<Rightarrow> RuntimeConfig \<Rightarrow> int \<Rightarrow> (error + unit) \<times> state" where
  "process_close_signals st snapshot c now_ms =
     (case DynamoStorage_list_positions st [STATUS_OPEN_CONFIRMED, STATUS_CLOSE_SIGNALLED] of
        Inl e \<Rightarrow> (Inl e, st)
      | Inr open_positions \<Rightarrow> process_close_loop snapshot c now_ms open_positions st)"

definition PositionManager_confirm_open ::
  "state \<Rightarrow> string \<Rightarrow> real \<Rightarrow> real \<Rightarrow> int \<Rightarrow> string option \<Rightarrow> (error + PositionRecord option) \<times> state" where
  "PositionManager_confirm_open st chat_id' entry_spread_actual' close_buffer' now_ms pid =
     (case pid of
        Some target_id \<Rightarrow>
          DynamoStorage_confirm_open st target_id entry_spread_actual' close_buffer' now_ms chat_id'
      | None \<Rightarrow>
          (case DynamoStorage_list_positions st [STATUS_OPEN_PENDING_CONFIRM] of
             Inl e \<Rightarrow> (Inl e, st)
           | Inr pending \<Rightarrow>
               if pending = [] then (Inr None, st)
               else DynamoStorage_confirm_open st (position_id (last pending))
                      entry_spread_actual' close_buffer' now_ms chat_id'))"


definition list_active_positions :: "state \<Rightarrow> error + PositionRecord list" where
  "list_active_positions st =
     DynamoStorage_list_positions st
       [STATUS_OPEN_PENDING_CONFIRM, STATUS_OPEN_CONFIRMED, STATUS_CLOSE_SIGNALLED]"

section \<open>The configuration store (src/config_store.py)\<close>

text \<open>
  A value of the configuration table as \<open>load_config_map\<close> returns it: a number has become
  an \<open>int\<close> or a \<open>float\<close>; a dictionary is kept without its content.
\<close>

datatype raw =
    RawNone
  | RawBool bool
  | RawInt int
  | RawFloat real
  | RawStr string
  | RawList "raw list"
  | RawDict

text \<open>
  Python's own functions on strings are inputs of the model: \<open>float\<close> and \<open>int\<close> of a
  string (\<open>None\<close> when they raise ValueError), \<open>str\<close> of a value, and \<open>str.strip\<close>.
\<close>

record builtins =
  float_of_str :: "string \<Rightarrow> real option"
  int_of_str :: "string \<Rightarrow> int option"
  str_of :: "raw \<Rightarrow> string"
  strip :: "string \<Rightarrow> string"

datatype cast_error = TypeError | ValueError

fun py_float :: "builtins \<Rightarrow> raw \<Rightarrow> cast_error + real" where
  "py_float B RawNone = Inl TypeError"
| "py_float B (RawBool b) = Inr (if b then 1 else 0)"
| "py_float B (RawInt n) = Inr (of_int n)"
| "py_float B (RawFloat x) = Inr x"
| "py_float B (RawStr s) = (case float_of_str B s of None \<Rightarrow> Inl ValueError | Some x \<Rightarrow> Inr x)"
| "py_float B (RawList xs) = Inl TypeError"
| "py_float B RawDict = Inl TypeError"

text \<open>\<open>int\<close> of a float truncates towards zero.\<close>

fun py_int :: "builtins \<Rightarrow> raw \<Rightarrow> cast_error + int" where
  "py_int B RawNone = Inl TypeError"
| "py_int B (RawBool b) = Inr (if b then 1 else 0)"
| "py_int B (RawInt n) = Inr n"
| "py_int B (RawFloat x) = Inr (if x \<ge> 0 then \<lfloor>x\<rfloor> else \<lceil>x\<rceil>)"
| "py_int B (RawStr s) = (case int_of_str B s of None \<Rightarrow> Inl ValueError | Some n \<Rightarrow> Inr n)"
| "py_int B (RawList xs) = Inl TypeError"
| "py_int B RawDict = Inl TypeError"

text \<open>\<open>float(caster(raw))\<close> with the caster \<open>float\<close>, and \<open>int(caster(raw))\<close> with \<open>int\<close>.\<close>

definition float_of_cast :: "builtins \<Rightarrow> raw \<Rightarrow> cast_error + real" where
  "float_of_cast B raw_value =
     (case py_float B raw_value of Inl e \<Rightarrow> Inl e | Inr v \<Rightarrow> py_float B (RawFloat v))"

definition int_of_cast :: "builtins \<Rightarrow> raw \<Rightarrow> cast_error + int" where
  "int_of_cast B raw_value =
     (case py_int B raw_value of Inl e \<Rightarrow> Inl e | Inr n \<Rightarrow> py_int B (RawInt n))"

text \<open>\<open>s.split(",")\<close>.\<close>

fun split_comma :: "string \<Rightarrow> string list" where
  "split_comma [] = [[]]"
| "split_comma (ch # rest) =
     (if ch = CHR '','' then [] # split_comma rest
      else (case split_comma rest of [] \<Rightarrow> [[ch]] | w # ws \<Rightarrow> (ch # w) # ws))"

fun parse_chat_ids :: "builtins \<Rightarrow> raw \<Rightarrow> string set" where
  "parse_chat_ids B RawNone = {}"
| "parse_chat_ids B (RawStr s) =
     set (map (strip B) (filter (\<lambda>p. strip B p \<noteq> []) (split_comma s)))"
| "parse_chat_ids B (RawList vs) =
     set (map (\<lambda>v. strip B (str_of B v)) (filter (\<lambda>v. strip B (str_of B v) \<noteq> []) vs))"
| "parse_chat_ids B other =
     (if strip B (str_of B other) \<noteq> [] then {strip B (str_of B other)} else {})"

text \<open>
  The keys of \<open>DYNAMIC_KEYS\<close> in the order of the dictionary. Their casters are \<open>float\<close>,
  except \<open>int\<close> for \<open>repeat_alert_sec\<close> and \<open>list\<close> (never called) for \<open>allowed_chat_ids\<close>.
\<close>

definition DYNAMIC_KEYS :: "string list" where
  "DYNAMIC_KEYS =
     [''threshold_open'', ''close_buffer'', ''repeat_alert_sec'', ''annual_factor'',
      ''poll_interval_sec'', ''allowed_chat_ids'']"

text \<open>
  The body of the loop of \<open>_merge_overrides\<close> for a key that has an override; a cast that
  raises TypeError or ValueError leaves the configuration as it is.
\<close>

definition merge_key :: "builtins \<Rightarrow> string \<Rightarrow> raw \<Rightarrow> RuntimeConfig \<Rightarrow> RuntimeConfig" where
  "merge_key B key raw_value config =
     (if key = ''allowed_chat_ids'' then
        config\<lparr>tg_allowed_chat_ids := parse_chat_ids B raw_value\<rparr>
      else if key = ''poll_interval_sec'' then
        (case float_of_cast B raw_value of
           Inl e \<Rightarrow> config | Inr v \<Rightarrow> config\<lparr>poll_interval_sec := max 0.5 v\<rparr>)
      else if key = ''repeat_alert_sec'' then
        (case int_of_cast B raw_value of
           Inl e \<Rightarrow> config | Inr n \<Rightarrow> config\<lparr>repeat_alert_sec := max 30 n\<rparr>)
      else if key = ''annual_factor'' then
        (case float_of_cast B raw_value of
           Inl e \<Rightarrow> config | Inr v \<Rightarrow> config\<lparr>annual_factor := v\<rparr>)
      else if key = ''threshold_open'' then
        (case float_of_cast B raw_value of
           Inl e \<Rightarrow> config | Inr v \<Rightarrow> config\<lparr>threshold_open := v\<rparr>)
      else if key = ''close_buffer'' then
        (case float_of_cast B raw_value of
           Inl e \<Rightarrow> config | Inr v \<Rightarrow> config\<lparr>close_buffer := v\<rparr>)
      else config)"

fun merge_loop ::
  "builtins \<Rightarrow> string list \<Rightarrow> (string \<rightharpoonup> raw) \<Rightarrow> RuntimeConfig \<Rightarrow> RuntimeConfig" where
  "merge_loop B [] overrides config = config"
| "merge_loop B (key # keys) overrides config =
     (case overrides key of
        None \<Rightarrow> merge_loop B keys overrides config
      | Some raw_value \<Rightarrow> merge_loop B keys overrides (merge_key B key raw_value config))"

definition merge_overrides ::
  "builtins \<Rightarrow> RuntimeConfig \<Rightarrow> (string \<rightharpoonup> raw) \<Rightarrow> RuntimeConfig" where
  "merge_overrides B base overrides = merge_loop B DYNAMIC_KEYS overrides base"

text \<open>
  The store: \<open>_base\<close>, \<open>_current\<close> and \<open>_last_refresh_ms\<close>. The configuration table is the
  map that \<open>load_config_map\<close> returns; it is an argument of \<open>refresh\<close> and is updated by
  \<open>save_override\<close>.
\<close>

record RuntimeConfigStore =
  p_base :: RuntimeConfig
  p_current :: RuntimeConfig
  p_last_refresh_ms :: int

definition init_store :: "RuntimeConfig \<Rightarrow> RuntimeConfigStore" where
  "init_store base_config' = \<lparr>p_base = base_config', p_current = base_config', p_last_refresh_ms = 0\<rparr>"

definition refresh ::
  "builtins \<Rightarrow> (string \<rightharpoonup> raw) \<Rightarrow> RuntimeConfigStore \<Rightarrow> int \<Rightarrow> RuntimeConfig \<times> RuntimeConfigStore" where
  "refresh B config_map cs now_ms =
     (if now_ms - p_last_refresh_ms cs < config_refresh_sec (p_current cs) * 1000
      then (p_current cs, cs)
      else (let merged = merge_overrides B (p_base cs) config_map
            in (merged, cs\<lparr>p_current := merged, p_last_refresh_ms := now_ms\<rparr>)))"

definition save_override ::
  "(string \<rightharpoonup> raw) \<Rightarrow> RuntimeConfigStore \<Rightarrow> string \<Rightarrow> raw
     \<Rightarrow> RuntimeConfig \<times> (string \<rightharpoonup> raw) \<times> RuntimeConfigStore" where
  "save_override config_map cs key v =
     (p_current cs, config_map(key \<mapsto> v), cs\<lparr>p_last_refresh_ms := 0\<rparr>)"

section \<open>Observations used in the statements\<close>

text \<open>
  The status stored for a key, the uniqueness of keys in the table, and the items that the
  three conditional writes store.
\<close>

definition status_of :: "state \<Rightarrow> string \<Rightarrow> status option" where
  "status_of st pid =
     (case get_item (positions_table st) pid of None \<Rightarrow> None | Some it \<Rightarrow> attr_status it)"

definition distinct_keys :: "item list \<Rightarrow> bool" where
  "distinct_keys tbl = distinct (map attr_position_id tbl)"

text \<open>
  The writes of the storage gateway to the positions table, as operations that can be put
  in a sequence. \<open>Create\<close> carries the identifier that \<open>uuid4\<close> returns; \<open>fresh_ids\<close> says
  that each of them is new to the table at the moment it is used.
\<close>

datatype storage_op =
    Create string real int metadata int
  | ConfirmOpen string real real int string
  | MarkOpenAlertSent string int
  | MarkCloseSignalled string int
  | MarkCloseAlertSent string int
  | ClosePosition string real int string

fun apply_op :: "state \<Rightarrow> storage_op \<Rightarrow> state" where
  "apply_op st (Create k x ts md t) = snd (DynamoStorage_create_pending_position st k x ts md t)"
| "apply_op st (ConfirmOpen k e b t c) = snd (DynamoStorage_confirm_open st k e b t c)"
| "apply_op st (MarkOpenAlertSent k t) = DynamoStorage_mark_open_alert_sent st k t"
| "apply_op st (MarkCloseSignalled k t) = snd (DynamoStorage_mark_close_signalled st k t)"
| "apply_op st (MarkCloseAlertSent k t) = snd (DynamoStorage_mark_close_alert_sent st k t)"
| "apply_op st (ClosePosition k x t c) = snd (DynamoStorage_close_position st k x t c)"

fun run_ops :: "state \<Rightarrow> storage_op list \<Rightarrow> state" where
  "run_ops st [] = st"
| "run_ops st (x # xs) = run_ops (apply_op st x) xs"

fun fresh_id :: "state \<Rightarrow> storage_op \<Rightarrow> bool" where
  "fresh_id st (Create k x ts md t) = (get_item (positions_table st) k = None)"
| "fresh_id st other = True"

fun fresh_ids :: "state \<Rightarrow> storage_op list \<Rightarrow> bool" where
  "fresh_ids st [] = True"
| "fresh_ids st (x # xs) = (fresh_id st x \<and> fresh_ids (apply_op st x) xs)"

fun status_rank :: "status \<Rightarrow> nat" where
  "status_rank STATUS_OPEN_PENDING_CONFIRM = 0"
| "status_rank STATUS_OPEN_CONFIRMED = 1"
| "status_rank STATUS_CLOSE_SIGNALLED = 2"
| "status_rank STATUS_CLOSED = 3"

definition stored_or_key :: "state \<Rightarrow> string \<Rightarrow> item" where
  "stored_or_key st k = (case get_item (positions_table st) k of None \<Rightarrow> key_only k | Some it \<Rightarrow> it)"


text \<open>
  The position a message is about, and the condition under which the loop of
  \<open>process_close_signals\<close> sends a message for a listed position.
\<close>

fun message_position :: "message \<Rightarrow> PositionRecord" where
  "message_position (OpenSignalMessage p snapshot threshold is_repeat) = p"
| "message_position (CloseSignalMessage p snapshot is_repeat) = p"

definition close_alert_due :: "MarketSnapshot \<Rightarrow> RuntimeConfig \<Rightarrow> int \<Rightarrow> PositionRecord \<Rightarrow> bool" where
  "close_alert_due snapshot c now q =
     (close_trigger q \<noteq> None
      \<and> (status q = STATUS_OPEN_CONFIRMED \<and> is_close_signal snapshot q
         \<or> status q = STATUS_CLOSE_SIGNALLED
           \<and> should_repeat (last_close_alert_ts q) now (repeat_alert_sec c)))"

text \<open>
  The value of a recognised key in a configuration, and whether the cast that
  \<open>_merge_overrides\<close> applies for a key raises on a stored value.
\<close>

datatype config_value = RealValue real | IntValue int | ChatIds "string set"

definition config_field :: "string \<Rightarrow> RuntimeConfig \<Rightarrow> config_value option" where
  "config_field key config =
     (if key = ''threshold_open'' then Some (RealValue (threshold_open config))
      else if key = ''close_buffer'' then Some (RealValue (close_buffer config))
      else if key = ''repeat_alert_sec'' then Some (IntValue (repeat_alert_sec config))
      else if key = ''annual_factor'' then Some (RealValue (annual_factor config))
      else if key = ''poll_interval_sec'' then Some (RealValue (poll_interval_sec config))
      else if key = ''allowed_chat_ids'' then Some (ChatIds (tg_allowed_chat_ids config))
      else None)"

definition cast_fails :: "builtins \<Rightarrow> string \<Rightarrow> raw \<Rightarrow> bool" where
  "cast_fails B key raw_value =
     (if key = ''repeat_alert_sec'' then isl (int_of_cast B raw_value)
      else if key \<in> set [''threshold_open'', ''close_buffer'', ''annual_factor'', ''poll_interval_sec'']
           then isl (float_of_cast B raw_value)
      else False)"

definition opened_item :: "item \<Rightarrow> real \<Rightarrow> real \<Rightarrow> int \<Rightarrow> string \<Rightarrow> item" where
  "opened_item it e b t c =
     it\<lparr>attr_status := Some STATUS_OPEN_CONFIRMED,
        attr_entry_spread_actual := Some e,
        attr_close_trigger := Some (signals_close_trigger e b),
        attr_opened_at_confirm_ts := Some t,
        attr_updated_at_ts := Some t,
        attr_chat_id := Some c\<rparr>"

definition signalled_item :: "item \<Rightarrow> int \<Rightarrow> item" where
  "signalled_item it t =
     it\<lparr>attr_status := Some STATUS_CLOSE_SIGNALLED,
        attr_close_signalled_ts := Some t,
        attr_last_close_alert_ts := Some t,
        attr_updated_at_ts := Some t\<rparr>"

definition closed_item :: "item \<Rightarrow> real \<Rightarrow> int \<Rightarrow> string \<Rightarrow> item" where
  "closed_item it x t c =
     it\<lparr>attr_status := Some STATUS_CLOSED,
        attr_close_spread_actual := Some x,
        attr_closed_at_confirm_ts := Some t,
        attr_updated_at_ts := Some t,
        attr_chat_id := Some c\<rparr>"

definition pending_item :: "string \<Rightarrow> real \<Rightarrow> int \<Rightarrow> metadata \<Rightarrow> int \<Rightarrow> item" where
  "pending_item k x ts md t =
     \<lparr>attr_position_id = k,
      attr_status = Some STATUS_OPEN_PENDING_CONFIRM,
      attr_created_at_ts = Some t,
      attr_updated_at_ts = Some t,
      attr_signal_spread = Some x,
      attr_signal_ts = Some ts,
      attr_last_open_alert_ts = Some t,
      attr_metadata_json = Some md,
      attr_entry_spread_actual = None, attr_opened_at_confirm_ts = None,
      attr_close_trigger = None, attr_close_signalled_ts = None,
      attr_last_close_alert_ts = None, attr_close_spread_actual = None,
      attr_closed_at_confirm_ts = None, attr_chat_id = None\<rparr>"

definition pending_record :: "string \<Rightarrow> real \<Rightarrow> int \<Rightarrow> metadata \<Rightarrow> int \<Rightarrow> PositionRecord" where
  "pending_record k x ts md t =
     \<lparr>position_id = k, status = STATUS_OPEN_PENDING_CONFIRM, created_at_ts = t,
      updated_at_ts = t, signal_spread = x, signal_ts = ts, last_open_alert_ts = t,
      entry_spread_actual = None, opened_at_confirm_ts = None, close_trigger = None,
      close_signalled_ts = None, last_close_alert_ts = None, close_spread_actual = None,
      closed_at_confirm_ts = None, chat_id = None, metadata = md\<rparr>"

section \<open>Example states\<close>

text \<open>
  States reached from the empty tables by the storage gateway's own operations: one
  pending position \<open>a\<close>; two pending positions \<open>a\<close> and \<open>b\<close>; and both of them confirmed
  open.
\<close>

definition empty_state :: state where
  "empty_state = \<lparr>positions_table = [], alerts_table = Some [], sent = []\<rparr>"

definition pending_state :: state where
  "pending_state =
     snd (DynamoStorage_create_pending_position empty_state ''a'' 41 1000 [] 2000)"



definition item_a :: item where
  "item_a = pending_item ''a'' 41 1000 [] 2000"

definition item_b :: item where
  "item_b = pending_item ''b'' 42 5000 [] 6000"

definition one_open_state :: state where
  "one_open_state = snd (DynamoStorage_confirm_open pending_state ''a'' 39 0 7000 ''chat'')"

text \<open>A snapshot with given spreads, and the configuration of the defaults.\<close>

definition example_snapshot :: "real \<Rightarrow> real \<Rightarrow> MarketSnapshot" where
  "example_snapshot x y =
     \<lparr>ts_ms = 1000, paxg_bid = 2300, paxg_ask = 2301, xaut_bid = 2299, xaut_ask = 2300,
      spread_open = x, spread_close = y, paxg_funding = Some 0.01, xaut_funding = Some 0.005,
      funding_diff_raw = Some 0.005, funding_diff_annual = Some 1.825,
      MarketSnapshot.annual_factor = 365, quote_size_paxg = ''size_100k'',
      quote_size_xaut = ''size_100k'', latency_ms = 20\<rparr>"

definition base_config :: RuntimeConfig where
  "base_config =
     \<lparr>api_url = ''https://omni-client-api.prod.ap-northeast-1.variational.io/metadata/stats'',
      quote_size = ''size_100k'', pair = ''PAXG_XAUT'', poll_interval_sec = 2,
      threshold_open = 40, close_buffer = 0, repeat_alert_sec = 300, annual_factor = 365,
      config_refresh_sec = 30, data_ttl_days = 90, aws_region = ''ap-northeast-1'',
      ticks_table = ''var_gold_ticks'', RuntimeConfig.positions_table = ''var_gold_positions'',
      config_table = ''var_gold_config'', RuntimeConfig.alerts_table = Some ''var_gold_alerts'',
      tg_bot_token = None, tg_allowed_chat_ids = {}\<rparr>"

text \<open>
  A stand-in for Python's functions on strings that agrees with them where the examples
  use them (\<open>float\<close> of the string \<open>abc\<close> raises ValueError), and a store whose effective
  configuration carries the override \<open>threshold_open = 45\<close>.
\<close>

definition example_builtins :: builtins where
  "example_builtins =
     \<lparr>float_of_str = (\<lambda>s. if s = ''45'' then Some 45 else None),
      int_of_str = (\<lambda>s. if s = ''45'' then Some 45 else None),
      str_of = (\<lambda>v. case v of RawStr s \<Rightarrow> s | other \<Rightarrow> ''None''),
      strip = (\<lambda>s. s)\<rparr>"

definition store_with_45 :: RuntimeConfigStore where
  "store_with_45 =
     snd (refresh example_builtins [''threshold_open'' \<mapsto> RawInt 45] (init_store base_config) 30000)"

section \<open>Signal rules: verified properties\<close>

text \<open>
  C8. For every snapshot and threshold, \<open>is_open_signal\<close> holds exactly when the snapshot's
  \<open>spread_open\<close> is at least the threshold; equality counts as a signal.
\<close>

theorem C8_is_open_signal_iff:
  "is_open_signal snapshot threshold = (spread_open snapshot \<ge> threshold)
   \<and> is_open_signal (snapshot\<lparr>spread_open := threshold\<rparr>) threshold"
  by (simp add: is_open_signal_def)

text \<open>
  C7. \<open>should_repeat\<close> is true exactly when the last alert timestamp is unset or the
  elapsed milliseconds since it reach the repeat interval (given in seconds, hence the factor
  1000), the boundary included. In particular, for every \<open>now\<close>: unset last alert with interval
  300 repeats; 299000 ms elapsed does not; 300000 ms elapsed does.
\<close>

theorem C7_should_repeat_iff:
  "should_repeat last_alert_ts now_ms interval_sec
     = (last_alert_ts = None \<or> now_ms - the last_alert_ts \<ge> interval_sec * 1000)
   \<and> should_repeat None now 300
   \<and> \<not> should_repeat (Some (now - 299000)) now 300
   \<and> should_repeat (Some (now - 300000)) now 300"
  by (cases last_alert_ts) (simp_all add: should_repeat_def)

section \<open>The table and the storage gateway: basic facts\<close>

lemma get_item_put_item:
  "get_item (put_item tbl it) k = (if k = attr_position_id it then Some it else get_item tbl k)"
  by (induction tbl) auto

lemma get_item_Some_D: "get_item tbl k = Some it \<Longrightarrow> attr_position_id it = k \<and> it \<in> set tbl"
  by (induction tbl) (auto split: if_splits)

lemma get_item_None_iff: "get_item tbl k = None \<longleftrightarrow> k \<notin> attr_position_id ` set tbl"
  by (induction tbl) auto

lemma put_item_fresh: "get_item tbl (attr_position_id it) = None \<Longrightarrow> put_item tbl it = tbl @ [it]"
  by (induction tbl) (auto split: if_splits)

lemma keys_put_item_present:
  "get_item tbl (attr_position_id it) \<noteq> None \<Longrightarrow>
   map attr_position_id (put_item tbl it) = map attr_position_id tbl"
  by (induction tbl) (auto split: if_splits)

lemma distinct_keys_put_item: "distinct_keys tbl \<Longrightarrow> distinct_keys (put_item tbl it)"
proof (cases "get_item tbl (attr_position_id it)")
  case None
  assume "distinct_keys tbl"
  with None show ?thesis
    by (simp add: put_item_fresh distinct_keys_def get_item_None_iff)
next
  case (Some a)
  assume "distinct_keys tbl"
  with Some show ?thesis
    by (simp add: keys_put_item_present distinct_keys_def)
qed

lemma distinct_keys_get_item:
  "distinct_keys tbl \<Longrightarrow> it \<in> set tbl \<Longrightarrow> get_item tbl (attr_position_id it) = Some it"
  unfolding distinct_keys_def by (induction tbl) (auto simp: image_iff)

lemma position_from_item_id:
  "position_from_item it = Inr r \<Longrightarrow> position_id r = attr_position_id it"
  by (auto simp: position_from_item_def split: option.splits)

lemma position_from_item_status:
  "position_from_item it = Inr r \<Longrightarrow> attr_status it = Some (status r)"
  by (auto simp: position_from_item_def split: option.splits)

lemma confirm_open_eq:
  "DynamoStorage_confirm_open st p e b t c =
     (case get_item (positions_table st) p of
        None \<Rightarrow> (Inr None, st)
      | Some it \<Rightarrow>
          if attr_status it = Some STATUS_OPEN_PENDING_CONFIRM
          then (map_sum id Some (position_from_item (opened_item it e b t c)),
                st\<lparr>positions_table := put_item (positions_table st) (opened_item it e b t c)\<rparr>)
          else (Inr None, st))"
  by (simp add: DynamoStorage_confirm_open_def update_item_def Let_def key_only_def
        opened_item_def signals_close_trigger_def split: option.splits)

lemma mark_close_signalled_eq:
  "DynamoStorage_mark_close_signalled st p t =
     (case get_item (positions_table st) p of
        None \<Rightarrow> (Inr None, st)
      | Some it \<Rightarrow>
          if attr_status it = Some STATUS_OPEN_CONFIRMED
          then (map_sum id Some (position_from_item (signalled_item it t)),
                st\<lparr>positions_table := put_item (positions_table st) (signalled_item it t)\<rparr>)
          else (Inr None, st))"
  by (simp add: DynamoStorage_mark_close_signalled_def update_item_def Let_def key_only_def
        signalled_item_def split: option.splits)

lemma close_position_eq:
  "DynamoStorage_close_position st p x t c =
     (case get_item (positions_table st) p of
        None \<Rightarrow> (Inr None, st)
      | Some it \<Rightarrow>
          if attr_status it = Some STATUS_OPEN_CONFIRMED \<or> attr_status it = Some STATUS_CLOSE_SIGNALLED
          then (map_sum id Some (position_from_item (closed_item it x t c)),
                st\<lparr>positions_table := put_item (positions_table st) (closed_item it x t c)\<rparr>)
          else (Inr None, st))"
  by (auto simp: DynamoStorage_close_position_def update_item_def Let_def key_only_def
        closed_item_def split: option.splits)

lemma position_from_opened_item:
  assumes "position_from_item it = Inr r"
  shows "\<exists>r'. position_from_item (opened_item it e b t c) = Inr r'
          \<and> status r' = STATUS_OPEN_CONFIRMED
          \<and> position_id r' = attr_position_id it
          \<and> entry_spread_actual r' = Some e
          \<and> close_trigger r' = Some (signals_close_trigger e b)
          \<and> opened_at_confirm_ts r' = Some t
          \<and> updated_at_ts r' = t
          \<and> chat_id r' = Some c
          \<and> signal_spread r' = signal_spread r \<and> signal_ts r' = signal_ts r
          \<and> created_at_ts r' = created_at_ts r"
  using assms
  by (auto simp: position_from_item_def opened_item_def split: option.splits)

lemma position_from_signalled_item:
  assumes "position_from_item it = Inr r"
  shows "\<exists>r'. position_from_item (signalled_item it t) = Inr r'
          \<and> status r' = STATUS_CLOSE_SIGNALLED
          \<and> position_id r' = attr_position_id it
          \<and> close_signalled_ts r' = Some t
          \<and> last_close_alert_ts r' = Some t
          \<and> updated_at_ts r' = t
          \<and> close_trigger r' = close_trigger r
          \<and> entry_spread_actual r' = entry_spread_actual r"
  using assms
  by (auto simp: position_from_item_def signalled_item_def split: option.splits)


lemma map_sum_id_Some_simps:
  "map_sum id Some x = Inr (Some r) \<longleftrightarrow> x = Inr r"
  "map_sum id Some x \<noteq> Inr None"
  "map_sum id Some x = Inl e \<longleftrightarrow> x = Inl e"
  by (cases x; auto)+

lemma position_from_pending_item:
  "position_from_item (pending_item k x ts md t) = Inr (pending_record k x ts md t)"
  by (simp add: position_from_item_def pending_item_def pending_record_def)

lemma create_pending_position_eq:
  "DynamoStorage_create_pending_position st k x ts md t =
     (Inr (pending_record k x ts md t),
      st\<lparr>positions_table := put_item (positions_table st) (pending_item k x ts md t)\<rparr>)"
  by (simp add: DynamoStorage_create_pending_position_def Let_def position_from_pending_item
        pending_item_def[symmetric])

lemma stored_or_key_id: "attr_position_id (stored_or_key st k) = k"
  by (auto simp: stored_or_key_def key_only_def split: option.splits dest: get_item_Some_D)

lemma stored_or_key_status: "attr_status (stored_or_key st k) = status_of st k"
  by (auto simp: stored_or_key_def status_of_def key_only_def split: option.splits)

lemma mark_open_alert_sent_eq:
  "DynamoStorage_mark_open_alert_sent st k t =
     st\<lparr>positions_table := put_item (positions_table st)
          ((stored_or_key st k)\<lparr>attr_last_open_alert_ts := Some t, attr_updated_at_ts := Some t\<rparr>)\<rparr>"
  by (simp add: DynamoStorage_mark_open_alert_sent_def update_item_def Let_def stored_or_key_def)

lemma mark_close_alert_sent_eq:
  "snd (DynamoStorage_mark_close_alert_sent st k t) =
     st\<lparr>positions_table := put_item (positions_table st)
          ((stored_or_key st k)\<lparr>attr_last_close_alert_ts := Some t, attr_updated_at_ts := Some t\<rparr>)\<rparr>"
  by (simp add: DynamoStorage_mark_close_alert_sent_def update_item_def Let_def stored_or_key_def)

lemma status_of_put_item:
  "status_of (st\<lparr>positions_table := put_item (positions_table st) it\<rparr>) p =
     (if p = attr_position_id it then attr_status it else status_of st p)"
  by (simp add: status_of_def get_item_put_item)

lemma written_item_simps:
  "attr_position_id (opened_item it e b t c) = attr_position_id it"
  "attr_status (opened_item it e b t c) = Some STATUS_OPEN_CONFIRMED"
  "attr_position_id (signalled_item it t) = attr_position_id it"
  "attr_status (signalled_item it t) = Some STATUS_CLOSE_SIGNALLED"
  "attr_position_id (closed_item it x t c) = attr_position_id it"
  "attr_status (closed_item it x t c) = Some STATUS_CLOSED"
  by (simp_all add: opened_item_def signalled_item_def closed_item_def)

lemma snd_confirm_open:
  "snd (DynamoStorage_confirm_open st k e b t c) =
     (if status_of st k = Some STATUS_OPEN_PENDING_CONFIRM
      then st\<lparr>positions_table :=
                put_item (positions_table st) (opened_item (stored_or_key st k) e b t c)\<rparr>
      else st)"
  by (simp add: confirm_open_eq status_of_def stored_or_key_def split: option.splits)

lemma snd_mark_close_signalled:
  "snd (DynamoStorage_mark_close_signalled st k t) =
     (if status_of st k = Some STATUS_OPEN_CONFIRMED
      then st\<lparr>positions_table :=
                put_item (positions_table st) (signalled_item (stored_or_key st k) t)\<rparr>
      else st)"
  by (simp add: mark_close_signalled_eq status_of_def stored_or_key_def split: option.splits)

lemma snd_close_position:
  "snd (DynamoStorage_close_position st k x t c) =
     (if status_of st k = Some STATUS_OPEN_CONFIRMED \<or> status_of st k = Some STATUS_CLOSE_SIGNALLED
      then st\<lparr>positions_table :=
                put_item (positions_table st) (closed_item (stored_or_key st k) x t c)\<rparr>
      else st)"
  by (simp add: close_position_eq status_of_def stored_or_key_def split: option.splits)

lemma status_of_confirm_open:
  "status_of (snd (DynamoStorage_confirm_open st k e b t c)) p =
     (if p = k \<and> status_of st k = Some STATUS_OPEN_PENDING_CONFIRM
      then Some STATUS_OPEN_CONFIRMED else status_of st p)"
  by (simp add: snd_confirm_open status_of_put_item written_item_simps stored_or_key_id)

lemma status_of_mark_close_signalled:
  "status_of (snd (DynamoStorage_mark_close_signalled st k t)) p =
     (if p = k \<and> status_of st k = Some STATUS_OPEN_CONFIRMED
      then Some STATUS_CLOSE_SIGNALLED else status_of st p)"
  by (simp add: snd_mark_close_signalled status_of_put_item written_item_simps stored_or_key_id)

lemma status_of_close_position:
  "status_of (snd (DynamoStorage_close_position st k x t c)) p =
     (if p = k \<and> (status_of st k = Some STATUS_OPEN_CONFIRMED
                  \<or> status_of st k = Some STATUS_CLOSE_SIGNALLED)
      then Some STATUS_CLOSED else status_of st p)"
  by (simp add: snd_close_position status_of_put_item written_item_simps stored_or_key_id)

lemma status_of_mark_open_alert_sent:
  "status_of (DynamoStorage_mark_open_alert_sent st k t) p = status_of st p"
  by (simp add: mark_open_alert_sent_eq status_of_put_item stored_or_key_id stored_or_key_status)

lemma status_of_mark_close_alert_sent:
  "status_of (snd (DynamoStorage_mark_close_alert_sent st k t)) p = status_of st p"
  by (simp add: mark_close_alert_sent_eq status_of_put_item stored_or_key_id stored_or_key_status)

lemma status_of_create:
  "status_of (snd (DynamoStorage_create_pending_position st k x ts md t)) p =
     (if p = k then Some STATUS_OPEN_PENDING_CONFIRM else status_of st p)"
  by (simp add: create_pending_position_eq status_of_put_item pending_item_def)

lemma apply_op_rank:
  assumes "fresh_id st x" and "status_of st p = Some s"
  shows "\<exists>s'. status_of (apply_op st x) p = Some s' \<and> status_rank s \<le> status_rank s'"
proof (cases x)
  case (Create k y ts md t)
  with assms have "p \<noteq> k" by (auto simp: status_of_def)
  with Create assms show ?thesis by (simp add: status_of_create)
next
  case (ConfirmOpen k e b t c)
  with assms show ?thesis by (auto simp: status_of_confirm_open)
next
  case (MarkOpenAlertSent k t)
  with assms show ?thesis by (simp add: status_of_mark_open_alert_sent)
next
  case (MarkCloseSignalled k t)
  with assms show ?thesis by (auto simp: status_of_mark_close_signalled)
next
  case (MarkCloseAlertSent k t)
  with assms show ?thesis by (simp add: status_of_mark_close_alert_sent)
next
  case (ClosePosition k y t c)
  with assms show ?thesis by (auto simp: status_of_close_position)
qed

lemma run_ops_rank:
  "fresh_ids st ops \<Longrightarrow> status_of st p = Some s \<Longrightarrow>
   \<exists>s'. status_of (run_ops st ops) p = Some s' \<and> status_rank s \<le> status_rank s'"
proof (induction ops arbitrary: st s)
  case Nil
  then show ?case by simp
next
  case (Cons x xs)
  from Cons.prems have fx: "fresh_id st x" and fxs: "fresh_ids (apply_op st x) xs" by simp_all
  from apply_op_rank[OF fx Cons.prems(2)] obtain s1
    where s1: "status_of (apply_op st x) p = Some s1" "status_rank s \<le> status_rank s1" by blast
  from Cons.IH[OF fxs s1(1)] obtain s'
    where "status_of (run_ops (apply_op st x) xs) p = Some s'" "status_rank s1 \<le> status_rank s'"
    by blast
  with s1(2) show ?case by auto
qed

lemma confirm_open_no_match:
  "status_of st p \<noteq> Some STATUS_OPEN_PENDING_CONFIRM \<Longrightarrow>
   DynamoStorage_confirm_open st p e b t c = (Inr None, st)"
  by (auto simp: confirm_open_eq status_of_def split: option.splits)

lemma mark_close_signalled_no_match:
  "status_of st p \<noteq> Some STATUS_OPEN_CONFIRMED \<Longrightarrow>
   DynamoStorage_mark_close_signalled st p t = (Inr None, st)"
  by (auto simp: mark_close_signalled_eq status_of_def split: option.splits)

lemma close_position_no_match:
  "status_of st p \<noteq> Some STATUS_OPEN_CONFIRMED \<Longrightarrow> status_of st p \<noteq> Some STATUS_CLOSE_SIGNALLED \<Longrightarrow>
   DynamoStorage_close_position st p x t c = (Inr None, st)"
  by (auto simp: close_position_eq status_of_def split: option.splits)

lemma positions_from_items_all2:
  "positions_from_items xs = Inr ps \<Longrightarrow>
   list_all2 (\<lambda>it r. position_from_item it = Inr r) xs ps"
  by (induction xs arbitrary: ps) (auto split: sum.splits)

lemma list_all2_member_right:
  "list_all2 P xs ys \<Longrightarrow> y \<in> set ys \<Longrightarrow> \<exists>x\<in>set xs. P x y"
  by (induction rule: list_all2_induct) auto

lemma list_positions_parsed:
  assumes "DynamoStorage_list_positions st S = Inr ps" and "S \<noteq> []"
  shows "\<exists>ps'. positions_from_items
                 (filter (\<lambda>it. case attr_status it of None \<Rightarrow> False | Some s \<Rightarrow> s \<in> set S)
                    (positions_table st)) = Inr ps'
               \<and> ps = sort_key signal_ts ps'"
  using assms
  by (cases "positions_from_items
                 (filter (\<lambda>it. case attr_status it of None \<Rightarrow> False | Some s \<Rightarrow> s \<in> set S)
                    (positions_table st))")
     (auto simp: DynamoStorage_list_positions_def scan_def)

lemma list_positions_member:
  assumes "DynamoStorage_list_positions st S = Inr ps" and "S \<noteq> []" and "q \<in> set ps"
  shows "\<exists>it\<in>set (positions_table st). position_from_item it = Inr q \<and> status q \<in> set S"
proof -
  from list_positions_parsed[OF assms(1,2)] obtain ps'
    where ps': "positions_from_items
                 (filter (\<lambda>it. case attr_status it of None \<Rightarrow> False | Some s \<Rightarrow> s \<in> set S)
                    (positions_table st)) = Inr ps'"
      and srt: "ps = sort_key signal_ts ps'" by blast
  from srt assms(3) have "q \<in> set ps'" by simp
  from list_all2_member_right[OF positions_from_items_all2[OF ps'] this]
  obtain it where it: "it \<in> set (positions_table st)"
      "(case attr_status it of None \<Rightarrow> False | Some s \<Rightarrow> s \<in> set S)"
      "position_from_item it = Inr q" by auto
  from it(2,3) have "status q \<in> set S"
    by (auto dest: position_from_item_status)
  with it show ?thesis by blast
qed

lemma list_positions_stored:
  assumes "DynamoStorage_list_positions st S = Inr ps" and "S \<noteq> []" and "q \<in> set ps"
      and "distinct_keys (positions_table st)"
  shows "\<exists>it. get_item (positions_table st) (position_id q) = Some it
              \<and> position_from_item it = Inr q \<and> status q \<in> set S"
proof -
  from list_positions_member[OF assms(1-3)] obtain it
    where it: "it \<in> set (positions_table st)" "position_from_item it = Inr q" "status q \<in> set S"
    by blast
  from distinct_keys_get_item[OF assms(4) it(1)] position_from_item_id[OF it(2)]
  have "get_item (positions_table st) (position_id q) = Some it" by simp
  with it show ?thesis by blast
qed





section \<open>The manager on open signals: case by case\<close>

lemma put_alert_fields:
  "sent (DynamoStorage_put_alert st a) = sent st"
  "positions_table (DynamoStorage_put_alert st a) = positions_table st"
  by (simp_all add: DynamoStorage_put_alert_def split: option.splits)

lemma notify_fields:
  "sent (notify st msg) = sent st @ [msg]"
  "positions_table (notify st msg) = positions_table st"
  by (simp_all add: notify_def)

lemma mark_open_alert_sent_fields:
  "sent (DynamoStorage_mark_open_alert_sent st k t) = sent st"
  "positions_table (DynamoStorage_mark_open_alert_sent st k t) =
     put_item (positions_table st)
       ((stored_or_key st k)\<lparr>attr_last_open_alert_ts := Some t, attr_updated_at_ts := Some t\<rparr>)"
  by (simp_all add: mark_open_alert_sent_eq)

lemma stored_or_key_notify: "stored_or_key (notify st msg) k = stored_or_key st k"
  by (simp add: stored_or_key_def notify_def)

lemma process_open_signals_no_signal:
  "\<not> is_open_signal snapshot (threshold_open c) \<Longrightarrow>
   process_open_signals st snapshot c now nid = (Inr (), st)"
  by (simp add: process_open_signals_def)

lemma process_open_signals_error:
  "is_open_signal snapshot (threshold_open c) \<Longrightarrow>
   DynamoStorage_list_positions st [STATUS_OPEN_PENDING_CONFIRM] = Inl e \<Longrightarrow>
   process_open_signals st snapshot c now nid = (Inl e, st)"
  by (simp add: process_open_signals_def)


lemma process_open_signals_quiet:
  assumes "is_open_signal snapshot (threshold_open c)"
      and "DynamoStorage_list_positions st [STATUS_OPEN_PENDING_CONFIRM] = Inr pending"
      and "pending \<noteq> []"
      and "now - last_open_alert_ts (last pending) < repeat_alert_sec c * 1000"
  shows "process_open_signals st snapshot c now nid = (Inr (), st)"
  using assms by (simp add: process_open_signals_def should_repeat_def)

lemma process_open_signals_remind:
  assumes "is_open_signal snapshot (threshold_open c)"
      and "DynamoStorage_list_positions st [STATUS_OPEN_PENDING_CONFIRM] = Inr pending"
      and "pending \<noteq> []"
      and "now - last_open_alert_ts (last pending) \<ge> repeat_alert_sec c * 1000"
  shows "fst (process_open_signals st snapshot c now nid) = Inr ()"
    and "positions_table (snd (process_open_signals st snapshot c now nid)) =
           put_item (positions_table st)
             ((stored_or_key st (position_id (last pending)))
                \<lparr>attr_last_open_alert_ts := Some now, attr_updated_at_ts := Some now\<rparr>)"
    and "sent (snd (process_open_signals st snapshot c now nid)) =
           sent st @ [OpenSignalMessage (last pending) snapshot (threshold_open c) True]"
  using assms
  by (simp_all add: process_open_signals_def should_repeat_def Let_def put_alert_fields
        notify_fields mark_open_alert_sent_fields stored_or_key_notify)


section \<open>Messages of the close loop, and silence inside the cooldown\<close>

lemma sent_storage_writes:
  "sent (snd (DynamoStorage_mark_close_signalled st k t)) = sent st"
  "sent (snd (DynamoStorage_mark_close_alert_sent st k t)) = sent st"
  "sent (snd (DynamoStorage_create_pending_position st k x ts md t)) = sent st"
  by (simp_all add: snd_mark_close_signalled mark_close_alert_sent_eq create_pending_position_eq)

lemma mark_close_signalled_Some:
  assumes "DynamoStorage_mark_close_signalled st p t = (Inr (Some r), st')"
  shows "\<exists>it. get_item (positions_table st) p = Some it
            \<and> attr_status it = Some STATUS_OPEN_CONFIRMED
            \<and> position_from_item (signalled_item it t) = Inr r
            \<and> st' = st\<lparr>positions_table := put_item (positions_table st) (signalled_item it t)\<rparr>"
  using assms
  by (auto simp: mark_close_signalled_eq map_sum_id_Some_simps split: option.splits if_splits)

lemma mark_close_signalled_id:
  assumes "DynamoStorage_mark_close_signalled st p t = (Inr (Some r), st')"
  shows "position_id r = p"
proof -
  from mark_close_signalled_Some[OF assms] obtain it
    where it: "get_item (positions_table st) p = Some it"
      "position_from_item (signalled_item it t) = Inr r" by blast
  from position_from_item_id[OF it(2)] get_item_Some_D[OF it(1)]
  show ?thesis by (simp add: written_item_simps)
qed

lemma process_close_loop_sent:
  "\<exists>ms. sent (snd (process_close_loop snapshot c now ps st)) = sent st @ ms
       \<and> (\<forall>m\<in>set ms. \<exists>q\<in>set ps. position_id (message_position m) = position_id q
                                    \<and> close_alert_due snapshot c now q)"
proof (induction ps arbitrary: st)
  case Nil
  then show ?case by simp
next
  case (Cons q rest)
  let ?Q = "\<lambda>ms qs. \<forall>m\<in>set ms. \<exists>q\<in>set qs. position_id (message_position m) = position_id q
                                    \<and> close_alert_due snapshot c now q"
  have weaken: "?Q ms (q # rest)" if "?Q ms rest" for ms using that by auto
  consider (skip) "close_trigger q = None"
    | (fire) "close_trigger q \<noteq> None" "status q = STATUS_OPEN_CONFIRMED" "is_close_signal snapshot q"
    | (remind) "close_trigger q \<noteq> None"
        "\<not> (status q = STATUS_OPEN_CONFIRMED \<and> is_close_signal snapshot q)"
        "status q = STATUS_CLOSE_SIGNALLED"
        "should_repeat (last_close_alert_ts q) now (repeat_alert_sec c)"
    | (none) "close_trigger q \<noteq> None"
        "\<not> (status q = STATUS_OPEN_CONFIRMED \<and> is_close_signal snapshot q)"
        "\<not> (status q = STATUS_CLOSE_SIGNALLED
            \<and> should_repeat (last_close_alert_ts q) now (repeat_alert_sec c))"
    by blast
  then show ?case
  proof cases
    case skip
    from Cons.IH[of st] obtain ms
      where "sent (snd (process_close_loop snapshot c now rest st)) = sent st @ ms" "?Q ms rest"
      by blast
    moreover have "process_close_loop snapshot c now (q # rest) st
                    = process_close_loop snapshot c now rest st"
      using skip by simp
    ultimately show ?thesis using weaken[of ms] by auto
  next
    case none
    from Cons.IH[of st] obtain ms
      where "sent (snd (process_close_loop snapshot c now rest st)) = sent st @ ms" "?Q ms rest"
      by blast
    moreover have "process_close_loop snapshot c now (q # rest) st
                    = process_close_loop snapshot c now rest st"
      using none by (auto simp del: not_None_eq)
    ultimately show ?thesis using weaken[of ms] by auto
  next
    case fire
    have due: "close_alert_due snapshot c now q"
      using fire by (simp add: close_alert_due_def)
    obtain res st1 where m: "DynamoStorage_mark_close_signalled st (position_id q) now = (res, st1)"
      by (cases "DynamoStorage_mark_close_signalled st (position_id q) now") auto
    have s1: "sent st1 = sent st"
      using sent_storage_writes(1)[of st "position_id q" now] m by simp
    show ?thesis
    proof (cases res)
      case (Inl e)
      have "process_close_loop snapshot c now (q # rest) st = (Inl e, st1)"
        using fire m Inl by (simp del: not_None_eq)
      with s1 show ?thesis by simp
    next
      case (Inr ro)
      show ?thesis
      proof (cases ro)
        case None
        from Cons.IH[of st1] obtain ms
          where "sent (snd (process_close_loop snapshot c now rest st1)) = sent st1 @ ms" "?Q ms rest"
          by blast
        moreover have "process_close_loop snapshot c now (q # rest) st
                    = process_close_loop snapshot c now rest st1"
          using fire m Inr None by (simp del: not_None_eq)
        ultimately show ?thesis using s1 weaken[of ms] by auto
      next
        case (Some updated)
        let ?msg = "CloseSignalMessage updated snapshot False"
        let ?st3 = "DynamoStorage_put_alert (notify st1 ?msg)
                          \<lparr>alert_ts_ms = now,
                           alert_type = ''CLOSE_SIGNAL'',
                           alert_position_id = position_id q,
                           alert_message = ''close signal triggered'',
                           alert_extra = (''spread_close'', spread_close snapshot)\<rparr>"
        have s3: "sent ?st3 = sent st @ [?msg]"
          by (simp add: put_alert_fields notify_fields s1)
        from Cons.IH[of ?st3] obtain ms
          where ms: "sent (snd (process_close_loop snapshot c now rest ?st3)) = sent ?st3 @ ms"
            "?Q ms rest" by blast
        have idu: "position_id updated = position_id q"
          using mark_close_signalled_id m Inr Some by blast
        have run: "process_close_loop snapshot c now (q # rest) st
                    = process_close_loop snapshot c now rest ?st3"
          using fire m Inr Some by (simp add: Let_def del: not_None_eq)
        have "?Q (?msg # ms) (q # rest)"
          using weaken[OF ms(2)] idu due by simp
        moreover have "sent (snd (process_close_loop snapshot c now (q # rest) st))
                        = sent st @ (?msg # ms)"
          unfolding run using ms(1) s3 by simp
        ultimately show ?thesis by blast
      qed
    qed
  next
    case remind
    have due: "close_alert_due snapshot c now q"
      using remind by (simp add: close_alert_due_def)
    let ?msg = "CloseSignalMessage q snapshot True"
    let ?st1 = "notify st ?msg"
    obtain res st2 where m: "DynamoStorage_mark_close_alert_sent ?st1 (position_id q) now = (res, st2)"
      by (cases "DynamoStorage_mark_close_alert_sent ?st1 (position_id q) now") auto
    have s2: "sent st2 = sent st @ [?msg]"
      using sent_storage_writes(2)[of ?st1 "position_id q" now] m by (simp add: notify_fields)
    have one: "?Q [?msg] (q # rest)" using due by simp
    show ?thesis
    proof (cases res)
      case (Inl e)
      have "process_close_loop snapshot c now (q # rest) st = (Inl e, st2)"
        using remind m Inl by (simp add: Let_def del: not_None_eq)
      with s2 one show ?thesis by auto
    next
      case (Inr ro)
      let ?st3 = "DynamoStorage_put_alert st2
                             \<lparr>alert_ts_ms = now,
                              alert_type = ''CLOSE_SIGNAL_REPEAT'',
                              alert_position_id = position_id q,
                              alert_message = ''close signal reminder'',
                              alert_extra = (''spread_close'', spread_close snapshot)\<rparr>"
      have s3: "sent ?st3 = sent st @ [?msg]" by (simp add: put_alert_fields s2)
      from Cons.IH[of ?st3] obtain ms
        where ms: "sent (snd (process_close_loop snapshot c now rest ?st3)) = sent ?st3 @ ms"
          "?Q ms rest" by blast
      have run: "process_close_loop snapshot c now (q # rest) st
                    = process_close_loop snapshot c now rest ?st3"
        using remind m Inr by (simp add: Let_def del: not_None_eq)
      have "?Q (?msg # ms) (q # rest)"
        using weaken[OF ms(2)] due by simp
      moreover have "sent (snd (process_close_loop snapshot c now (q # rest) st))
                        = sent st @ (?msg # ms)"
        unfolding run using ms(1) s3 by simp
      ultimately show ?thesis by blast
    qed
  qed
qed


lemma signalled_record_fields:
  "position_from_item (signalled_item it t) = Inr r \<Longrightarrow>
   status r = STATUS_CLOSE_SIGNALLED \<and> last_close_alert_ts r = Some t \<and> close_signalled_ts r = Some t"
  by (auto simp: position_from_item_def signalled_item_def split: option.splits)

lemma list_positions_length:
  assumes "DynamoStorage_list_positions st S = Inr ps" and "S \<noteq> []"
  shows "length ps = length (filter (\<lambda>it. case attr_status it of None \<Rightarrow> False | Some s \<Rightarrow> s \<in> set S)
                               (positions_table st))"
proof -
  from list_positions_parsed[OF assms] obtain ps'
    where ps': "positions_from_items
                 (filter (\<lambda>it. case attr_status it of None \<Rightarrow> False | Some s \<Rightarrow> s \<in> set S)
                    (positions_table st)) = Inr ps'"
      and srt: "ps = sort_key signal_ts ps'" by blast
  from list_all2_lengthD[OF positions_from_items_all2[OF ps']] srt show ?thesis by simp
qed

lemma no_open_message_inside_cooldown:
  assumes dk: "distinct_keys (positions_table st)"
      and cool: "now - t < repeat_alert_sec c * 1000"
      and st1: "st1 = snd (DynamoStorage_create_pending_position st nid x ts md t)"
      and m: "m \<in> set (drop (length (sent st1))
                          (sent (snd (process_open_signals st1 snapshot c now nid2))))"
  shows "position_id (message_position m) \<noteq> nid"
proof -
  let ?it = "pending_item nid x ts md t"
  have tbl1: "positions_table st1 = put_item (positions_table st) ?it"
    by (simp add: st1 create_pending_position_eq)
  have key: "attr_position_id ?it = nid" "attr_status ?it = Some STATUS_OPEN_PENDING_CONFIRM"
    by (simp_all add: pending_item_def)
  have g1: "get_item (positions_table st1) nid = Some ?it"
    by (simp add: tbl1 get_item_put_item key)
  have dk1: "distinct_keys (positions_table st1)"
    unfolding tbl1 by (rule distinct_keys_put_item[OF dk])
  have sig: "is_open_signal snapshot (threshold_open c)"
  proof (rule ccontr)
    assume "\<not> is_open_signal snapshot (threshold_open c)"
    with m show False by (simp add: process_open_signals_no_signal)
  qed
  obtain pending where lst: "DynamoStorage_list_positions st1 [STATUS_OPEN_PENDING_CONFIRM] = Inr pending"
  proof (cases "DynamoStorage_list_positions st1 [STATUS_OPEN_PENDING_CONFIRM]")
    case (Inl e)
    with m sig show ?thesis by (simp add: process_open_signals_error)
  next
    case (Inr ps)
    then show ?thesis by (rule that)
  qed
  from get_item_Some_D[OF g1] key(2) have
    "filter (\<lambda>it. case attr_status it of None \<Rightarrow> False
                  | Some s \<Rightarrow> s \<in> set [STATUS_OPEN_PENDING_CONFIRM]) (positions_table st1) \<noteq> []"
    by (auto simp: filter_empty_conv intro!: bexI[of _ ?it])
  with list_positions_length[OF lst] have ne: "pending \<noteq> []" by auto
  have due: "now - last_open_alert_ts (last pending) \<ge> repeat_alert_sec c * 1000"
  proof (rule ccontr)
    assume "\<not> ?thesis"
    then have "now - last_open_alert_ts (last pending) < repeat_alert_sec c * 1000" by simp
    from process_open_signals_quiet[OF sig lst ne this] m show False by simp
  qed
  from m have msg: "m = OpenSignalMessage (last pending) snapshot (threshold_open c) True"
    by (simp add: process_open_signals_remind(3)[OF sig lst ne due])
  show ?thesis
  proof
    assume "position_id (message_position m) = nid"
    with msg have idl: "position_id (last pending) = nid" by simp
    from ne have "last pending \<in> set pending" by simp
    from list_positions_stored[OF lst _ this dk1] idl g1
    have "position_from_item ?it = Inr (last pending)" by auto
    then have "last pending = pending_record nid x ts md t"
      by (simp add: position_from_pending_item)
    then have "last_open_alert_ts (last pending) = t" by (simp add: pending_record_def)
    with due cool show False by simp
  qed
qed

lemma no_close_message_inside_cooldown:
  assumes dk: "distinct_keys (positions_table st)"
      and cool: "now - t < repeat_alert_sec c * 1000"
      and mk: "DynamoStorage_mark_close_signalled st p t = (Inr (Some r), st1)"
      and m: "m \<in> set (drop (length (sent st1))
                          (sent (snd (process_close_signals st1 snapshot c now))))"
  shows "position_id (message_position m) \<noteq> p"
proof -
  from mark_close_signalled_Some[OF mk] obtain it0
    where it0: "get_item (positions_table st) p = Some it0"
      "position_from_item (signalled_item it0 t) = Inr r"
      "st1 = st\<lparr>positions_table := put_item (positions_table st) (signalled_item it0 t)\<rparr>"
    by blast
  have key: "attr_position_id (signalled_item it0 t) = p"
    using get_item_Some_D[OF it0(1)] by (simp add: written_item_simps)
  have g1: "get_item (positions_table st1) p = Some (signalled_item it0 t)"
    by (simp add: it0(3) get_item_put_item key)
  have dk1: "distinct_keys (positions_table st1)"
    using distinct_keys_put_item[OF dk] by (simp add: it0(3))
  obtain ps where lst: "DynamoStorage_list_positions st1
        [STATUS_OPEN_CONFIRMED, STATUS_CLOSE_SIGNALLED] = Inr ps"
  proof (cases "DynamoStorage_list_positions st1 [STATUS_OPEN_CONFIRMED, STATUS_CLOSE_SIGNALLED]")
    case (Inl e)
    with m show ?thesis by (simp add: process_close_signals_def)
  next
    case (Inr ps)
    then show ?thesis by (rule that)
  qed
  have run: "process_close_signals st1 snapshot c now = process_close_loop snapshot c now ps st1"
    by (simp add: process_close_signals_def lst)
  from process_close_loop_sent[of snapshot c now ps st1] obtain ms
    where ms: "sent (snd (process_close_loop snapshot c now ps st1)) = sent st1 @ ms"
      "\<forall>m\<in>set ms. \<exists>q\<in>set ps. position_id (message_position m) = position_id q
                                    \<and> close_alert_due snapshot c now q" by blast
  from m have "m \<in> set ms" by (simp add: run ms(1))
  with ms(2) obtain q where q: "q \<in> set ps" "position_id (message_position m) = position_id q"
      "close_alert_due snapshot c now q" by blast
  show ?thesis
  proof
    assume "position_id (message_position m) = p"
    with q(2) have idq: "position_id q = p" by simp
    from list_positions_stored[OF lst _ q(1) dk1] idq g1
    have "position_from_item (signalled_item it0 t) = Inr q" by auto
    from signalled_record_fields[OF this]
    have "status q = STATUS_CLOSE_SIGNALLED" "last_close_alert_ts q = Some t" by simp_all
    with q(3) have "now - t \<ge> repeat_alert_sec c * 1000"
      by (simp add: close_alert_due_def should_repeat_def)
    with cool show False by simp
  qed
qed

section \<open>Merging overrides: key by key\<close>

lemma merge_key_simps:
  "merge_key B ''allowed_chat_ids'' v c = c\<lparr>tg_allowed_chat_ids := parse_chat_ids B v\<rparr>"
  "merge_key B ''poll_interval_sec'' v c =
     (case float_of_cast B v of Inl e \<Rightarrow> c | Inr x \<Rightarrow> c\<lparr>poll_interval_sec := max 0.5 x\<rparr>)"
  "merge_key B ''repeat_alert_sec'' v c =
     (case int_of_cast B v of Inl e \<Rightarrow> c | Inr n \<Rightarrow> c\<lparr>repeat_alert_sec := max 30 n\<rparr>)"
  "merge_key B ''annual_factor'' v c =
     (case float_of_cast B v of Inl e \<Rightarrow> c | Inr x \<Rightarrow> c\<lparr>annual_factor := x\<rparr>)"
  "merge_key B ''threshold_open'' v c =
     (case float_of_cast B v of Inl e \<Rightarrow> c | Inr x \<Rightarrow> c\<lparr>threshold_open := x\<rparr>)"
  "merge_key B ''close_buffer'' v c =
     (case float_of_cast B v of Inl e \<Rightarrow> c | Inr x \<Rightarrow> c\<lparr>close_buffer := x\<rparr>)"
  by (simp_all add: merge_key_def)

lemma merge_key_unknown:
  "k \<notin> set DYNAMIC_KEYS \<Longrightarrow> merge_key B k v c = c"
  by (simp add: merge_key_def DYNAMIC_KEYS_def)

lemma merge_key_known_other_field:
  "\<forall>k\<in>set DYNAMIC_KEYS. k \<noteq> key \<longrightarrow>
     config_field key (merge_key B k v c) = config_field key c"
  by (simp add: DYNAMIC_KEYS_def merge_key_simps config_field_def split: sum.splits)

lemma merge_key_other_field:
  assumes "k \<noteq> key"
  shows "config_field key (merge_key B k v c) = config_field key c"
proof (cases "k \<in> set DYNAMIC_KEYS")
  case True
  with merge_key_known_other_field[of key B v c] assms show ?thesis by simp
next
  case False
  then show ?thesis by (simp add: merge_key_unknown)
qed

lemma merge_key_known_fails:
  "\<forall>k\<in>set DYNAMIC_KEYS. cast_fails B k v \<longrightarrow> merge_key B k v c = c"
  by (simp add: DYNAMIC_KEYS_def merge_key_simps cast_fails_def isl_def split: sum.splits)

lemma merge_key_fails:
  assumes "cast_fails B k v"
  shows "merge_key B k v c = c"
proof (cases "k \<in> set DYNAMIC_KEYS")
  case True
  with merge_key_known_fails[of B v c] assms show ?thesis by simp
next
  case False
  then show ?thesis by (simp add: merge_key_unknown)
qed

lemma merge_key_known_floors:
  "\<forall>k\<in>set DYNAMIC_KEYS.
     (poll_interval_sec c \<ge> 0.5 \<longrightarrow> poll_interval_sec (merge_key B k v c) \<ge> 0.5)
     \<and> (repeat_alert_sec c \<ge> 30 \<longrightarrow> repeat_alert_sec (merge_key B k v c) \<ge> 30)"
  by (simp add: DYNAMIC_KEYS_def merge_key_simps max_def split: sum.splits)

lemma merge_key_floors:
  "poll_interval_sec c \<ge> 0.5 \<Longrightarrow> poll_interval_sec (merge_key B k v c) \<ge> 0.5"
  "repeat_alert_sec c \<ge> 30 \<Longrightarrow> repeat_alert_sec (merge_key B k v c) \<ge> 30"
  using merge_key_known_floors[of c B v] merge_key_unknown[of k B v c]
  by (cases "k \<in> set DYNAMIC_KEYS"; simp)+

lemma merge_loop_field:
  assumes "overrides key = Some raw_value" and "cast_fails B key raw_value"
  shows "config_field key (merge_loop B keys overrides config) = config_field key config"
proof (induction keys arbitrary: config)
  case Nil
  show ?case by simp
next
  case (Cons k ks)
  show ?case
  proof (cases "overrides k")
    case None
    with Cons show ?thesis by simp
  next
    case (Some v)
    show ?thesis
    proof (cases "k = key")
      case True
      with Some assms have "merge_key B k v config = config"
        by (simp add: merge_key_fails)
      with Some Cons show ?thesis by simp
    next
      case False
      with Some Cons merge_key_other_field[OF False, of B v config] show ?thesis by simp
    qed
  qed
qed

lemma merge_loop_poll_floor:
  "poll_interval_sec config \<ge> 0.5 \<Longrightarrow> poll_interval_sec (merge_loop B keys overrides config) \<ge> 0.5"
proof (induction keys arbitrary: config)
  case Nil
  then show ?case by simp
next
  case (Cons k ks)
  show ?case
  proof (cases "overrides k")
    case None
    with Cons show ?thesis by simp
  next
    case (Some v)
    from Cons.IH[OF merge_key_floors(1)[OF Cons.prems, of B k v]] Some show ?thesis by simp
  qed
qed

lemma merge_loop_repeat_floor:
  "repeat_alert_sec config \<ge> 30 \<Longrightarrow> repeat_alert_sec (merge_loop B keys overrides config) \<ge> 30"
proof (induction keys arbitrary: config)
  case Nil
  then show ?case by simp
next
  case (Cons k ks)
  show ?case
  proof (cases "overrides k")
    case None
    with Cons show ?thesis by simp
  next
    case (Some v)
    from Cons.IH[OF merge_key_floors(2)[OF Cons.prems, of B k v]] Some show ?thesis by simp
  qed
qed

section \<open>Example states: basic facts\<close>

lemma pending_state_table: "positions_table pending_state = [item_a]"
  by (simp add: pending_state_def empty_state_def create_pending_position_eq item_a_def)

lemma item_a_position: "\<exists>r. position_from_item item_a = Inr r \<and> status r = STATUS_OPEN_PENDING_CONFIRM"
  by (simp add: position_from_pending_item item_a_def pending_record_def)

lemma status_of_empty_state: "status_of empty_state p = None"
  by (simp add: status_of_def empty_state_def)

lemma status_of_pending_state:
  "status_of pending_state p = (if p = ''a'' then Some STATUS_OPEN_PENDING_CONFIRM else None)"
  by (simp add: pending_state_def status_of_create status_of_empty_state)

lemma example_item_keys:
  "attr_position_id item_a = ''a''" "attr_position_id item_b = ''b''"
  "attr_status item_a = Some STATUS_OPEN_PENDING_CONFIRM"
  "attr_status item_b = Some STATUS_OPEN_PENDING_CONFIRM"
  by (simp_all add: item_a_def item_b_def pending_item_def)


lemma one_open_state_table:
  "positions_table one_open_state = [opened_item item_a 39 0 7000 ''chat'']"
  by (simp add: one_open_state_def snd_confirm_open status_of_pending_state stored_or_key_def
      pending_state_table example_item_keys written_item_simps)








lemma example_fields:
  "spread_open (example_snapshot x y) = x"
  "spread_close (example_snapshot x y) = y"
  "ts_ms (example_snapshot x y) = 1000"
  "threshold_open base_config = 40"
  "repeat_alert_sec base_config = 300"
  by (simp_all add: example_snapshot_def base_config_def)

lemma example_state_fields:
  "positions_table empty_state = []" "sent empty_state = []" "sent pending_state = []"
  by (simp_all add: empty_state_def pending_state_def create_pending_position_eq)

lemma mark_close_signalled_one_open_state:
  "\<exists>r st1. DynamoStorage_mark_close_signalled one_open_state ''a'' 9000 = (Inr (Some r), st1)
           \<and> position_id r = ''a'' \<and> sent st1 = []"
proof -
  obtain r0 where r0: "position_from_item (opened_item item_a 39 0 7000 ''chat'') = Inr r0"
    using position_from_opened_item[OF position_from_pending_item,
        of "''a''" 41 1000 "[]" 2000 39 0 7000 "''chat''"]
    by (auto simp: item_a_def)
  obtain r where r: "position_from_item (signalled_item (opened_item item_a 39 0 7000 ''chat'') 9000) = Inr r"
      "position_id r = attr_position_id (opened_item item_a 39 0 7000 ''chat'')"
    using position_from_signalled_item[OF r0, of 9000] by blast
  have "sent one_open_state = []"
    by (simp add: one_open_state_def snd_confirm_open example_state_fields)
  with r show ?thesis
    by (simp add: mark_close_signalled_eq one_open_state_table written_item_simps example_item_keys)
qed

lemma merge_overrides_threshold_only:
  "merge_overrides B base [''threshold_open'' \<mapsto> v] = merge_key B ''threshold_open'' v base"
  by (simp add: merge_overrides_def DYNAMIC_KEYS_def)

lemma base_config_fields:
  "threshold_open base_config = 40" "config_refresh_sec base_config = 30"
  "poll_interval_sec base_config = 2" "repeat_alert_sec base_config = 300"
  by (simp_all add: base_config_def)

lemma store_with_45_fields:
  "threshold_open (p_current store_with_45) = 45"
  "p_base store_with_45 = base_config"
  "p_last_refresh_ms store_with_45 = 30000"
  "config_refresh_sec (p_current store_with_45) = 30"
  by (simp_all add: store_with_45_def refresh_def init_store_def Let_def base_config_fields
        merge_overrides_threshold_only merge_key_simps float_of_cast_def)

lemma example_cast_fails:
  "float_of_cast example_builtins (RawStr ''abc'') = Inl ValueError"
  "float_of_cast example_builtins RawNone = Inl TypeError"
  "cast_fails example_builtins ''threshold_open'' (RawStr ''abc'')"
  by (simp_all add: float_of_cast_def example_builtins_def cast_fails_def)

section \<open>Confirming an open position\<close>

text \<open>
  C1. Take any state whose table holds a position \<open>p\<close> with status OPEN_PENDING_CONFIRM and
  run two \<open>confirm_open\<close> calls that name \<open>p\<close>, one after the other, with any arguments
  (the two calls are arbitrary, so either confirmer may be the first). The first returns the
  updated record, the second returns \<open>None\<close> and changes nothing; the status of \<open>p\<close> is
  OPEN_CONFIRMED after the first call and after the second, and the stored record is the
  one the first call wrote.
\<close>

theorem C1_confirm_open_single_winner:
  assumes "DynamoStorage_get_position st p = Inr (Some r)"
      and "status r = STATUS_OPEN_PENDING_CONFIRM"
      and "PositionManager_confirm_open st chat1 e1 b1 t1 (Some p) = (res1, st1)"
      and "PositionManager_confirm_open st1 chat2 e2 b2 t2 (Some p) = (res2, st2)"
  shows "(\<exists>r1. res1 = Inr (Some r1)
            \<and> position_id r1 = p
            \<and> status r1 = STATUS_OPEN_CONFIRMED
            \<and> entry_spread_actual r1 = Some e1
            \<and> chat_id r1 = Some chat1
            \<and> DynamoStorage_get_position st2 p = Inr (Some r1))
         \<and> res2 = Inr None
         \<and> st2 = st1
         \<and> status_of st p = Some STATUS_OPEN_PENDING_CONFIRM
         \<and> status_of st1 p = Some STATUS_OPEN_CONFIRMED
         \<and> status_of st2 p = Some STATUS_OPEN_CONFIRMED"
proof -
  from assms(1) obtain it where it: "get_item (positions_table st) p = Some it"
      and pit: "position_from_item it = Inr r"
    by (auto simp: DynamoStorage_get_position_def map_sum_id_Some_simps split: option.splits)
  from pit assms(2) have stat: "attr_status it = Some STATUS_OPEN_PENDING_CONFIRM"
    by (simp add: position_from_item_status)
  from get_item_Some_D[OF it] have key: "attr_position_id it = p" by simp
  let ?it' = "opened_item it e1 b1 t1 chat1"
  from position_from_opened_item[OF pit, of e1 b1 t1 chat1] key
  obtain r1 where r1: "position_from_item ?it' = Inr r1"
      "status r1 = STATUS_OPEN_CONFIRMED" "position_id r1 = p"
      "entry_spread_actual r1 = Some e1" "chat_id r1 = Some chat1"
    by auto
  have key': "attr_position_id ?it' = p" using key by (simp add: opened_item_def)
  have first: "res1 = Inr (Some r1)"
      "st1 = st\<lparr>positions_table := put_item (positions_table st) ?it'\<rparr>"
    using assms(3) it stat r1(1)
    by (simp_all add: PositionManager_confirm_open_def confirm_open_eq)
  have get1: "get_item (positions_table st1) p = Some ?it'"
    using first(2) key' by (simp add: get_item_put_item)
  have stat1: "attr_status ?it' = Some STATUS_OPEN_CONFIRMED"
    by (simp add: opened_item_def)
  have second: "res2 = Inr None" "st2 = st1"
    using assms(4) get1 stat1
    by (simp_all add: PositionManager_confirm_open_def confirm_open_eq)
  have "DynamoStorage_get_position st2 p = Inr (Some r1)"
    using second(2) get1 r1(1) by (simp add: DynamoStorage_get_position_def)
  with first second r1 it stat get1 stat1 show ?thesis
    by (simp add: status_of_def)
qed

theorem C1_confirm_open_single_winner_witness:
  "fst (PositionManager_confirm_open pending_state ''u1'' 39 0 3000 (Some ''a'')) \<noteq> Inr None
   \<and> fst (PositionManager_confirm_open
            (snd (PositionManager_confirm_open pending_state ''u1'' 39 0 3000 (Some ''a'')))
            ''u2'' 38 0 3001 (Some ''a'')) = Inr None
   \<and> status_of (snd (PositionManager_confirm_open
            (snd (PositionManager_confirm_open pending_state ''u1'' 39 0 3000 (Some ''a'')))
            ''u2'' 38 0 3001 (Some ''a''))) ''a'' = Some STATUS_OPEN_CONFIRMED"
proof -
  obtain r where r: "position_from_item item_a = Inr r" "status r = STATUS_OPEN_PENDING_CONFIRM"
    using item_a_position by blast
  have ka: "attr_position_id item_a = ''a''" by (simp add: item_a_def pending_item_def)
  have h1: "DynamoStorage_get_position pending_state ''a'' = Inr (Some r)"
    using r(1) ka by (simp add: DynamoStorage_get_position_def pending_state_table)
  show ?thesis
    using C1_confirm_open_single_winner[OF h1 r(2) prod.collapse[symmetric] prod.collapse[symmetric],
        of "''u1''" 39 0 3000 "''u2''" 38 0 3001]
    by auto
qed

text \<open>
  C9. \<open>close_trigger\<close> of signals.py is \<open>- entry_spread_actual + close_buffer\<close>, so it is
  \<open>-39\<close> at \<open>(39, 0)\<close> and \<open>-37\<close> at \<open>(39, 2)\<close>; and whenever the storage gateway's
  \<open>confirm_open\<close> succeeds, the close trigger of the record it returns and the one it
  leaves in the table are this same value.
\<close>

theorem C9_close_trigger_rule:
  "signals_close_trigger e b = - e + b
   \<and> signals_close_trigger 39 0 = - 39
   \<and> signals_close_trigger 39 2 = - 37
   \<and> (DynamoStorage_confirm_open st p e b t c = (Inr (Some r), st') \<longrightarrow>
        close_trigger r = Some (signals_close_trigger e b)
        \<and> (\<exists>it. get_item (positions_table st') p = Some it
                \<and> attr_close_trigger it = Some (signals_close_trigger e b)))"
proof -
  have "close_trigger r = Some (signals_close_trigger e b)
        \<and> (\<exists>it. get_item (positions_table st') p = Some it
                \<and> attr_close_trigger it = Some (signals_close_trigger e b))"
    if ok: "DynamoStorage_confirm_open st p e b t c = (Inr (Some r), st')"
  proof -
    from ok obtain it where it: "get_item (positions_table st) p = Some it"
        and r: "position_from_item (opened_item it e b t c) = Inr r"
        and st': "st' = st\<lparr>positions_table := put_item (positions_table st) (opened_item it e b t c)\<rparr>"
      by (auto simp: confirm_open_eq map_sum_id_Some_simps split: option.splits if_splits)
    have key: "attr_position_id (opened_item it e b t c) = p"
      using get_item_Some_D[OF it] by (simp add: opened_item_def)
    have "close_trigger r = Some (signals_close_trigger e b)"
      using r by (auto simp: position_from_item_def opened_item_def split: option.splits)
    moreover have "get_item (positions_table st') p = Some (opened_item it e b t c)"
      using st' key by (simp add: get_item_put_item)
    moreover have "attr_close_trigger (opened_item it e b t c) = Some (signals_close_trigger e b)"
      by (simp add: opened_item_def)
    ultimately show ?thesis by simp
  qed
  then show ?thesis by (simp add: signals_close_trigger_def)
qed

theorem C9_close_trigger_rule_witness:
  "\<exists>r. fst (DynamoStorage_confirm_open pending_state ''a'' 39 2 3000 ''u1'') = Inr (Some r)
       \<and> close_trigger r = Some (- 37)"
proof -
  obtain r0 where r0: "position_from_item item_a = Inr r0"
    using item_a_position by blast
  obtain r where r: "position_from_item (opened_item item_a 39 2 3000 ''u1'') = Inr r"
    using position_from_opened_item[OF r0] by blast
  have run: "DynamoStorage_confirm_open pending_state ''a'' 39 2 3000 ''u1''
        = (Inr (Some r), snd (DynamoStorage_confirm_open pending_state ''a'' 39 2 3000 ''u1''))"
    using r by (simp add: confirm_open_eq pending_state_table item_a_def pending_item_def)
  from C9_close_trigger_rule[of 39 2 pending_state "''a''" 3000 "''u1''" r] run
  have "close_trigger r = Some (- 37)" by simp
  with run show ?thesis by (metis fst_conv)
qed

section \<open>The status never regresses\<close>

text \<open>
  C2. Rank the statuses OPEN_PENDING_CONFIRM < OPEN_CONFIRMED < CLOSE_SIGNALLED < CLOSED.
  Along every sequence of writes of the storage gateway (create, confirm_open,
  mark_close_signalled, close_position, and the two alert stamps) in which every created
  identifier is fresh, a position that has a status keeps having one, of the same or a
  higher rank. A created position starts as OPEN_PENDING_CONFIRM. Each of the three
  status-changing writes moves a position to its target status when the stored status is
  the expected one (OPEN_PENDING_CONFIRM for confirm_open, OPEN_CONFIRMED for
  mark_close_signalled, OPEN_CONFIRMED or CLOSE_SIGNALLED for close_position), and
  otherwise returns \<open>None\<close> and leaves the whole state as it was.
\<close>

theorem C2_status_only_advances:
  "(fresh_ids st ops \<and> status_of st p = Some s \<longrightarrow>
      (\<exists>s'. status_of (run_ops st ops) p = Some s' \<and> status_rank s \<le> status_rank s'))
   \<and> status_of (snd (DynamoStorage_create_pending_position st k y ts md t)) k
        = Some STATUS_OPEN_PENDING_CONFIRM
   \<and> (status_of st p = Some STATUS_OPEN_PENDING_CONFIRM \<longrightarrow>
        status_of (snd (DynamoStorage_confirm_open st p e b t c)) p = Some STATUS_OPEN_CONFIRMED)
   \<and> (status_of st p \<noteq> Some STATUS_OPEN_PENDING_CONFIRM \<longrightarrow>
        DynamoStorage_confirm_open st p e b t c = (Inr None, st))
   \<and> (status_of st p = Some STATUS_OPEN_CONFIRMED \<longrightarrow>
        status_of (snd (DynamoStorage_mark_close_signalled st p t)) p = Some STATUS_CLOSE_SIGNALLED)
   \<and> (status_of st p \<noteq> Some STATUS_OPEN_CONFIRMED \<longrightarrow>
        DynamoStorage_mark_close_signalled st p t = (Inr None, st))
   \<and> (status_of st p = Some STATUS_OPEN_CONFIRMED \<or> status_of st p = Some STATUS_CLOSE_SIGNALLED \<longrightarrow>
        status_of (snd (DynamoStorage_close_position st p x t c)) p = Some STATUS_CLOSED)
   \<and> (status_of st p \<noteq> Some STATUS_OPEN_CONFIRMED \<and> status_of st p \<noteq> Some STATUS_CLOSE_SIGNALLED \<longrightarrow>
        DynamoStorage_close_position st p x t c = (Inr None, st))"
  using run_ops_rank[of st ops p s]
  by (simp add: status_of_create status_of_confirm_open status_of_mark_close_signalled
      status_of_close_position confirm_open_no_match mark_close_signalled_no_match
      close_position_no_match)


theorem C2_status_only_advances_witness:
  "status_of (run_ops pending_state
       [Create ''b'' 42 5000 [] 6000, ConfirmOpen ''a'' 39 0 7000 ''u'',
        MarkCloseSignalled ''a'' 8000, ClosePosition ''a'' (- 38) 9000 ''u'',
        ConfirmOpen ''a'' 39 0 9500 ''u'']) ''a'' = Some STATUS_CLOSED
   \<and> status_of (snd (DynamoStorage_confirm_open pending_state ''a'' 39 0 7000 ''u'')) ''a''
        = Some STATUS_OPEN_CONFIRMED
   \<and> DynamoStorage_confirm_open empty_state ''a'' 39 0 7000 ''u'' = (Inr None, empty_state)
   \<and> DynamoStorage_mark_close_signalled pending_state ''a'' 8000 = (Inr None, pending_state)
   \<and> DynamoStorage_close_position pending_state ''a'' (- 38) 9000 ''u'' = (Inr None, pending_state)
   \<and> status_of (snd (DynamoStorage_mark_close_signalled
                        (snd (DynamoStorage_confirm_open pending_state ''a'' 39 0 7000 ''u''))
                        ''a'' 8000)) ''a'' = Some STATUS_CLOSE_SIGNALLED
   \<and> status_of (snd (DynamoStorage_close_position
                        (snd (DynamoStorage_confirm_open pending_state ''a'' 39 0 7000 ''u''))
                        ''a'' (- 38) 9000 ''u'')) ''a'' = Some STATUS_CLOSED"
proof -
  let ?ops = "[Create ''b'' 42 5000 [] 6000, ConfirmOpen ''a'' 39 0 7000 ''u'',
        MarkCloseSignalled ''a'' 8000, ClosePosition ''a'' (- 38) 9000 ''u'',
        ConfirmOpen ''a'' 39 0 9500 ''u'']"
  let ?opened = "snd (DynamoStorage_confirm_open pending_state ''a'' 39 0 7000 ''u'')"
  have fresh: "fresh_ids pending_state ?ops"
    by (simp add: pending_state_table item_a_def pending_item_def)
  have final: "status_of (run_ops pending_state ?ops) ''a'' = Some STATUS_CLOSED"
    by (simp add: status_of_create status_of_confirm_open status_of_mark_close_signalled
        status_of_close_position status_of_pending_state)
  have opened: "status_of ?opened ''a'' = Some STATUS_OPEN_CONFIRMED"
    by (simp add: status_of_confirm_open status_of_pending_state)
  show ?thesis
    using C2_status_only_advances[of pending_state ?ops "''a''" STATUS_OPEN_PENDING_CONFIRM
            "''b''" 42 5000 "[]" 6000 39 0 "''u''" "- 38"]
          C2_status_only_advances[of empty_state "[]" "''a''" STATUS_CLOSED
            "''b''" 42 5000 "[]" 7000 39 0 "''u''" "- 38"]
          C2_status_only_advances[of pending_state "[]" "''a''" STATUS_OPEN_PENDING_CONFIRM
            "''b''" 42 5000 "[]" 8000 39 0 "''u''" "- 38"]
          C2_status_only_advances[of pending_state "[]" "''a''" STATUS_OPEN_PENDING_CONFIRM
            "''b''" 42 5000 "[]" 9000 39 0 "''u''" "- 38"]
          C2_status_only_advances[of ?opened "[]" "''a''" STATUS_OPEN_CONFIRMED
            "''b''" 42 5000 "[]" 8000 39 0 "''u''" "- 38"]
          C2_status_only_advances[of ?opened "[]" "''a''" STATUS_OPEN_CONFIRMED
            "''b''" 42 5000 "[]" 9000 39 0 "''u''" "- 38"]
          fresh final opened
    by (simp add: status_of_pending_state status_of_empty_state)
qed

section \<open>Confirming without an identifier\<close>







section \<open>Processing open signals\<close>




section \<open>Alert stamps and the reminder cooldown\<close>

text \<open>
  C10. \<open>create_pending_position\<close> at time \<open>t\<close> returns a record whose \<open>last_open_alert_ts\<close>
  is \<open>t\<close> and stores that stamp; a successful \<open>mark_close_signalled\<close> at time \<open>t\<close> returns a
  record whose \<open>last_close_alert_ts\<close> and \<open>close_signalled_ts\<close> are \<open>t\<close> and stores both.
  Consequently, with unique keys in the table and a current time less than
  \<open>repeat_alert_sec\<close> seconds after \<open>t\<close>, no message that \<open>process_open_signals\<close> sends
  after the creation is about the created position, and no message that
  \<open>process_close_signals\<close> sends after the transition is about the signalled position.
\<close>

theorem C10_stamps_arm_the_cooldown:
  "(\<exists>r. fst (DynamoStorage_create_pending_position st nid x ts md t) = Inr r
        \<and> last_open_alert_ts r = t)
   \<and> (\<exists>it. get_item (positions_table (snd (DynamoStorage_create_pending_position st nid x ts md t)))
              nid = Some it
          \<and> attr_last_open_alert_ts it = Some t)
   \<and> (DynamoStorage_mark_close_signalled st p t = (Inr (Some r), st1) \<longrightarrow>
        last_close_alert_ts r = Some t \<and> close_signalled_ts r = Some t
        \<and> (\<exists>it. get_item (positions_table st1) p = Some it
                \<and> attr_last_close_alert_ts it = Some t
                \<and> attr_close_signalled_ts it = Some t))
   \<and> (distinct_keys (positions_table st) \<and> now - t < repeat_alert_sec c * 1000 \<longrightarrow>
        (\<forall>m \<in> set (drop (length (sent (snd (DynamoStorage_create_pending_position st nid x ts md t))))
                     (sent (snd (process_open_signals
                              (snd (DynamoStorage_create_pending_position st nid x ts md t))
                              snapshot c now nid2)))).
            position_id (message_position m) \<noteq> nid))
   \<and> (distinct_keys (positions_table st) \<and> now - t < repeat_alert_sec c * 1000
        \<and> DynamoStorage_mark_close_signalled st p t = (Inr (Some r), st1) \<longrightarrow>
        (\<forall>m \<in> set (drop (length (sent st1)) (sent (snd (process_close_signals st1 snapshot c now)))).
            position_id (message_position m) \<noteq> p))"
proof (intro conjI impI ballI)
  show "\<exists>r. fst (DynamoStorage_create_pending_position st nid x ts md t) = Inr r
        \<and> last_open_alert_ts r = t"
    by (simp add: create_pending_position_eq pending_record_def)
  show "\<exists>it. get_item (positions_table (snd (DynamoStorage_create_pending_position st nid x ts md t)))
              nid = Some it
          \<and> attr_last_open_alert_ts it = Some t"
    by (simp add: create_pending_position_eq get_item_put_item pending_item_def)
next
  assume mk: "DynamoStorage_mark_close_signalled st p t = (Inr (Some r), st1)"
  from mark_close_signalled_Some[OF mk] obtain it0
    where it0: "get_item (positions_table st) p = Some it0"
      "position_from_item (signalled_item it0 t) = Inr r"
      "st1 = st\<lparr>positions_table := put_item (positions_table st) (signalled_item it0 t)\<rparr>"
    by blast
  from signalled_record_fields[OF it0(2)]
  show "last_close_alert_ts r = Some t" "close_signalled_ts r = Some t" by simp_all
  have "attr_position_id (signalled_item it0 t) = p"
    using get_item_Some_D[OF it0(1)] by (simp add: written_item_simps)
  then have "get_item (positions_table st1) p = Some (signalled_item it0 t)"
    by (simp add: it0(3) get_item_put_item)
  then show "\<exists>it. get_item (positions_table st1) p = Some it
                \<and> attr_last_close_alert_ts it = Some t
                \<and> attr_close_signalled_ts it = Some t"
    by (simp add: signalled_item_def)
next
  fix m
  assume "distinct_keys (positions_table st) \<and> now - t < repeat_alert_sec c * 1000"
    and "m \<in> set (drop (length (sent (snd (DynamoStorage_create_pending_position st nid x ts md t))))
                     (sent (snd (process_open_signals
                              (snd (DynamoStorage_create_pending_position st nid x ts md t))
                              snapshot c now nid2))))"
  then show "position_id (message_position m) \<noteq> nid"
    using no_open_message_inside_cooldown[of st now t c _ nid x ts md m snapshot nid2] by blast
next
  fix m
  assume "distinct_keys (positions_table st) \<and> now - t < repeat_alert_sec c * 1000
        \<and> DynamoStorage_mark_close_signalled st p t = (Inr (Some r), st1)"
    and "m \<in> set (drop (length (sent st1)) (sent (snd (process_close_signals st1 snapshot c now))))"
  then show "position_id (message_position m) \<noteq> p"
    using no_close_message_inside_cooldown[of st now t c p r st1 m snapshot] by blast
qed


theorem C10_stamps_arm_the_cooldown_witness:
  "OpenSignalMessage (pending_record ''a'' 41 1000 [] 2000) (example_snapshot 42 (- 39)) 40 True
     \<notin> set (sent (snd (process_open_signals pending_state (example_snapshot 42 (- 39))
                          base_config 301999 ''n'')))
   \<and> (\<exists>r st1. DynamoStorage_mark_close_signalled one_open_state ''a'' 9000 = (Inr (Some r), st1)
         \<and> last_close_alert_ts r = Some 9000
         \<and> close_signalled_ts r = Some 9000
         \<and> CloseSignalMessage r (example_snapshot 30 (- 38)) True
             \<notin> set (sent (snd (process_close_signals st1 (example_snapshot 30 (- 38))
                                  base_config 308999))))"
proof -
  let ?loud = "example_snapshot 42 (- 39)" and ?snap = "example_snapshot 30 (- 38)"
  have ps: "pending_state = snd (DynamoStorage_create_pending_position empty_state ''a'' 41 1000 [] 2000)"
    by (simp add: pending_state_def)
  have d0: "distinct_keys (positions_table empty_state)"
    by (simp add: distinct_keys_def example_state_fields)
  have d1: "distinct_keys (positions_table one_open_state)"
    by (simp add: distinct_keys_def one_open_state_table)
  have cool0: "(301999::int) - 2000 < repeat_alert_sec base_config * 1000"
    and cool1: "(308999::int) - 9000 < repeat_alert_sec base_config * 1000"
    by (simp_all add: example_fields)
  obtain r st1 where mk: "DynamoStorage_mark_close_signalled one_open_state ''a'' 9000 = (Inr (Some r), st1)"
      and idr: "position_id r = ''a''" and s1: "sent st1 = []"
    using mark_close_signalled_one_open_state by blast
  note open_inst = C10_stamps_arm_the_cooldown[of empty_state "''a''" 41 1000 "[]" 2000
      "''a''" r st1 301999 base_config ?loud "''n''"]
  note close_inst = C10_stamps_arm_the_cooldown[of one_open_state "''b''" 41 1000 "[]" 9000
      "''a''" r st1 308999 base_config ?snap "''n''"]
  have a: "OpenSignalMessage (pending_record ''a'' 41 1000 [] 2000) ?loud 40 True
     \<notin> set (sent (snd (process_open_signals pending_state ?loud base_config 301999 ''n'')))"
    using open_inst d0 cool0
    by (auto simp: ps[symmetric] example_state_fields pending_record_def)
  have b: "last_close_alert_ts r = Some 9000 \<and> close_signalled_ts r = Some 9000"
    using close_inst mk by simp
  have c: "CloseSignalMessage r ?snap True
             \<notin> set (sent (snd (process_close_signals st1 ?snap base_config 308999)))"
    using close_inst mk d1 cool1 idr
    by (auto simp: s1)
  from a b c mk show ?thesis by blast
qed

section \<open>Overrides that fail to parse\<close>

text \<open>
  C4, as the code has it. When the cast of the stored override of a recognised key raises,
  \<open>_merge_overrides\<close> leaves that key at the value of the base configuration it merges
  onto; a \<open>refresh\<close> that reloads merges onto the store's base configuration, so the key has
  the base value in the new effective configuration, which also becomes the cached one.
  The floors survive every merge: a base configuration with \<open>poll_interval_sec\<close> at least
  0.5 and \<open>repeat_alert_sec\<close> at least 30 keeps both bounds, whatever the overrides.
\<close>

theorem C4_failed_cast_keeps_base_value:
  "(overrides key = Some raw_value \<and> cast_fails B key raw_value \<longrightarrow>
      config_field key (merge_overrides B base overrides) = config_field key base)
   \<and> (overrides key = Some raw_value \<and> cast_fails B key raw_value
        \<and> now - p_last_refresh_ms cs \<ge> config_refresh_sec (p_current cs) * 1000 \<longrightarrow>
      config_field key (fst (refresh B overrides cs now)) = config_field key (p_base cs)
      \<and> p_current (snd (refresh B overrides cs now)) = fst (refresh B overrides cs now))
   \<and> (poll_interval_sec base \<ge> 0.5 \<longrightarrow> poll_interval_sec (merge_overrides B base overrides) \<ge> 0.5)
   \<and> (repeat_alert_sec base \<ge> 30 \<longrightarrow> repeat_alert_sec (merge_overrides B base overrides) \<ge> 30)"
proof (intro conjI impI)
  assume "overrides key = Some raw_value \<and> cast_fails B key raw_value"
  then show "config_field key (merge_overrides B base overrides) = config_field key base"
    by (simp add: merge_overrides_def merge_loop_field)
next
  assume h: "overrides key = Some raw_value \<and> cast_fails B key raw_value
        \<and> now - p_last_refresh_ms cs \<ge> config_refresh_sec (p_current cs) * 1000"
  then have r: "refresh B overrides cs now =
      (merge_overrides B (p_base cs) overrides,
       cs\<lparr>p_current := merge_overrides B (p_base cs) overrides, p_last_refresh_ms := now\<rparr>)"
    by (simp add: refresh_def Let_def)
  from h show "config_field key (fst (refresh B overrides cs now)) = config_field key (p_base cs)"
    by (simp add: r merge_overrides_def merge_loop_field)
  show "p_current (snd (refresh B overrides cs now)) = fst (refresh B overrides cs now)"
    by (simp add: r)
next
  assume "poll_interval_sec base \<ge> 0.5"
  then show "poll_interval_sec (merge_overrides B base overrides) \<ge> 0.5"
    unfolding merge_overrides_def by (rule merge_loop_poll_floor)
next
  assume "repeat_alert_sec base \<ge> 30"
  then show "repeat_alert_sec (merge_overrides B base overrides) \<ge> 30"
    unfolding merge_overrides_def by (rule merge_loop_repeat_floor)
qed

theorem C4_failed_cast_keeps_base_value_witness:
  "config_field ''threshold_open''
      (fst (refresh example_builtins [''threshold_open'' \<mapsto> RawStr ''abc''] store_with_45 60000))
     = Some (RealValue 40)
   \<and> poll_interval_sec (merge_overrides example_builtins base_config
        [''poll_interval_sec'' \<mapsto> RawFloat 0.1]) \<ge> 0.5
   \<and> repeat_alert_sec (merge_overrides example_builtins base_config
        [''repeat_alert_sec'' \<mapsto> RawInt 5]) \<ge> 30"
proof -
  have b: "config_field ''threshold_open'' base_config = Some (RealValue 40)"
    by (simp add: config_field_def base_config_fields)
  have m: "[''threshold_open'' \<mapsto> RawStr ''abc''] ''threshold_open'' = Some (RawStr ''abc'')"
    by simp
  have due: "config_refresh_sec (p_current store_with_45) * 1000 \<le> 60000 - p_last_refresh_ms store_with_45"
    by (simp add: store_with_45_fields)
  have fl: "poll_interval_sec base_config \<ge> 0.5" "repeat_alert_sec base_config \<ge> 30"
    by (simp_all add: base_config_fields)
  from C4_failed_cast_keeps_base_value[where overrides = "[''threshold_open'' \<mapsto> RawStr ''abc'']"
        and key = "''threshold_open''" and raw_value = "RawStr ''abc''" and B = example_builtins
        and base = base_config and cs = store_with_45 and now = 60000]
      m example_cast_fails(3) due
  have a1: "config_field ''threshold_open''
      (fst (refresh example_builtins [''threshold_open'' \<mapsto> RawStr ''abc''] store_with_45 60000))
     = config_field ''threshold_open'' (p_base store_with_45)"
    by blast
  from C4_failed_cast_keeps_base_value[where overrides = "[''poll_interval_sec'' \<mapsto> RawFloat 0.1]"
        and B = example_builtins and base = base_config] fl(1)
  have a2: "poll_interval_sec (merge_overrides example_builtins base_config
        [''poll_interval_sec'' \<mapsto> RawFloat 0.1]) \<ge> 0.5"
    by blast
  from C4_failed_cast_keeps_base_value[where overrides = "[''repeat_alert_sec'' \<mapsto> RawInt 5]"
        and B = example_builtins and base = base_config] fl(2)
  have a3: "repeat_alert_sec (merge_overrides example_builtins base_config
        [''repeat_alert_sec'' \<mapsto> RawInt 5]) \<ge> 30"
    by blast
  from a1 a2 a3 b show ?thesis by (simp add: store_with_45_fields)
qed

text \<open>
  The claim as stated fails where it says that the previously effective value stays: with
  base value 40 and an effective configuration that carries the override 45, a reload that
  finds the unparseable override \<open>abc\<close> (or \<open>None\<close>) yields 40, not 45.
\<close>

theorem C4_prior_effective_value_counterexample:
  "threshold_open (p_current store_with_45) = 45
   \<and> cast_fails example_builtins ''threshold_open'' (RawStr ''abc'')
   \<and> threshold_open (fst (refresh example_builtins [''threshold_open'' \<mapsto> RawStr ''abc'']
                             store_with_45 60000)) = 40
   \<and> threshold_open (fst (refresh example_builtins [''threshold_open'' \<mapsto> RawNone]
                             store_with_45 60000)) = 40"
  by (simp add: store_with_45_fields refresh_def Let_def merge_overrides_threshold_only
      merge_key_simps example_cast_fails base_config_fields)

end
